theory Spec2Isabelle
  imports Main
begin

section \<open>Solidity values, errors and checked arithmetic\<close>

text \<open>
  The contracts are Solidity 0.8: \<open>uint256\<close> arithmetic is checked and reverts with
  \<open>Panic(0x11)\<close> on overflow or underflow and with \<open>Panic(0x12)\<close> on division by zero.
  A \<open>uint256\<close> is a \<open>nat\<close> with the bound written out, an \<open>int256\<close> an \<open>int\<close>, an
  address a \<open>nat\<close> with \<open>address(0) = 0\<close>. A call that reverts returns \<open>Inl\<close> of the
  error and no state: the caller keeps the state it had (the EVM rolls a reverted call back).
  \<open>nonReentrant\<close> always passes at the start of a transaction: every external collaborator
  is a function of this model that returns before the next entry point starts, so the
  guard's flag is not part of the state.
\<close>

type_synonym address = nat
type_synonym bytes = "nat list"

datatype error =
    Revert string
  | Panic nat
  | AccessControlUnauthorizedAccount address string
  | EnforcedPause
  | ExpectedPause
  | ERC20InsufficientBalance address nat nat
  | ERC20InsufficientAllowance address nat nat
  | ERC20InvalidSender address
  | ERC20InvalidReceiver address
  | ERC20InvalidApprover address
  | ERC20InvalidSpender address

definition MAX_UINT256 :: nat where
  "MAX_UINT256 = 2 ^ 256 - 1"

definition MAX_INT256 :: int where
  "MAX_INT256 = 2 ^ 255 - 1"

definition MIN_INT256 :: int where
  "MIN_INT256 = - (2 ^ 255)"

definition and_then :: "error + 'a \<Rightarrow> ('a \<Rightarrow> error + 'b) \<Rightarrow> error + 'b" where
  "and_then r f = (case r of Inl e \<Rightarrow> Inl e | Inr x \<Rightarrow> f x)"

definition add256 :: "nat \<Rightarrow> nat \<Rightarrow> error + nat" where
  "add256 a b = (if a + b \<le> MAX_UINT256 then Inr (a + b) else Inl (Panic 17))"

definition sub256 :: "nat \<Rightarrow> nat \<Rightarrow> error + nat" where
  "sub256 a b = (if b \<le> a then Inr (a - b) else Inl (Panic 17))"

definition mul256 :: "nat \<Rightarrow> nat \<Rightarrow> error + nat" where
  "mul256 a b = (if a * b \<le> MAX_UINT256 then Inr (a * b) else Inl (Panic 17))"

definition div256 :: "nat \<Rightarrow> nat \<Rightarrow> error + nat" where
  "div256 a b = (if b = 0 then Inl (Panic 18) else Inr (a div b))"

text \<open>Signed 256-bit arithmetic: checked, and division truncates toward zero.\<close>

definition in_int256 :: "int \<Rightarrow> bool" where
  "in_int256 x = (MIN_INT256 \<le> x \<and> x \<le> MAX_INT256)"

definition sub_int256 :: "int \<Rightarrow> int \<Rightarrow> error + int" where
  "sub_int256 a b = (if in_int256 (a - b) then Inr (a - b) else Inl (Panic 17))"

definition mul_int256 :: "int \<Rightarrow> int \<Rightarrow> error + int" where
  "mul_int256 a b = (if in_int256 (a * b) then Inr (a * b) else Inl (Panic 17))"

definition div_int256 :: "int \<Rightarrow> int \<Rightarrow> error + int" where
  "div_int256 a b =
     (if b = 0 then Inl (Panic 18)
      else if in_int256 (sgn a * sgn b * (\<bar>a\<bar> div \<bar>b\<bar>))
      then Inr (sgn a * sgn b * (\<bar>a\<bar> div \<bar>b\<bar>)) else Inl (Panic 17))"

text \<open>
  A transaction either commits the state its entry point returns or, when the entry
  point reverts, leaves the state as it was.
\<close>

definition commit :: "'s \<Rightarrow> error + 'a \<times> 's \<Rightarrow> 's" where
  "commit s r = (case r of Inl e \<Rightarrow> s | Inr (x, s') \<Rightarrow> s')"

section \<open>The external token mechanism\<close>

text \<open>
  Modelled from the spec: the fungible-token mechanism (the ERC-20 base contract the
  sources import from a library that is not among them). A transfer moves exactly the
  stated amount from the sender to the receiver and fails when the sender's balance or
  the spender's allowance is too small; an unlimited allowance is not consumed.
\<close>

record erc20 =
  balances :: "address \<Rightarrow> nat"
  allowances :: "address \<Rightarrow> address \<Rightarrow> nat"
  totalSupply :: nat

definition balanceOf :: "erc20 \<Rightarrow> address \<Rightarrow> nat" where
  "balanceOf t a = balances t a"

definition erc20_transfer :: "address \<Rightarrow> address \<Rightarrow> nat \<Rightarrow> erc20 \<Rightarrow> error + erc20" where
  "erc20_transfer from to v t =
     (if from = 0 then Inl (ERC20InvalidSender 0)
      else if to = 0 then Inl (ERC20InvalidReceiver 0)
      else if balances t from < v then Inl (ERC20InsufficientBalance from (balances t from) v)
      else Inr (let b1 = (balances t)(from := balances t from - v)
                in t\<lparr>balances := b1(to := b1 to + v)\<rparr>))"

definition erc20_approve :: "address \<Rightarrow> address \<Rightarrow> nat \<Rightarrow> erc20 \<Rightarrow> error + erc20" where
  "erc20_approve owner spender v t =
     (if owner = 0 then Inl (ERC20InvalidApprover 0)
      else if spender = 0 then Inl (ERC20InvalidSpender 0)
      else Inr (t\<lparr>allowances := (allowances t)(owner := (allowances t owner)(spender := v))\<rparr>))"

definition erc20_transferFrom ::
  "address \<Rightarrow> address \<Rightarrow> address \<Rightarrow> nat \<Rightarrow> erc20 \<Rightarrow> error + erc20" where
  "erc20_transferFrom spender from to v t =
     (let cur = allowances t from spender in
      if cur < MAX_UINT256 then
        (if cur < v then Inl (ERC20InsufficientAllowance spender cur v)
         else and_then (erc20_approve from spender (cur - v) t) (erc20_transfer from to v))
      else erc20_transfer from to v t)"

definition erc20_mint :: "address \<Rightarrow> nat \<Rightarrow> erc20 \<Rightarrow> error + erc20" where
  "erc20_mint to v t =
     (if to = 0 then Inl (ERC20InvalidReceiver 0)
      else and_then (add256 (totalSupply t) v) (\<lambda>ts.
        Inr (t\<lparr>balances := (balances t)(to := balances t to + v), totalSupply := ts\<rparr>)))"

definition erc20_burn :: "address \<Rightarrow> nat \<Rightarrow> erc20 \<Rightarrow> error + erc20" where
  "erc20_burn from v t =
     (if from = 0 then Inl (ERC20InvalidSender 0)
      else if balances t from < v then Inl (ERC20InsufficientBalance from (balances t from) v)
      else Inr (t\<lparr>balances := (balances t)(from := balances t from - v),
                  totalSupply := totalSupply t - v\<rparr>))"

section \<open>The contracts' state\<close>

text \<open>AAPLToken: an ERC-20 with minter and burner roles and a pause switch.\<close>

record aapl_token =
  aapl_erc20 :: erc20
  aapl_minters :: "address set"
  aapl_burners :: "address set"
  aapl_paused :: bool

text \<open>OracleAdapter: \<open>_latestPrice\<close>, \<open>_lastUpdated\<close>, \<open>_updateCount\<close> and the operators.\<close>

record oracle_adapter =
  latestPrice :: int
  lastUpdated :: nat
  updateCount :: nat
  oracle_operators :: "address set"

text \<open>CollateralVault: \<open>_userCollateral\<close>, \<open>_totalCollateral\<close>, the role and the pause switch.\<close>

record collateral_vault =
  userCollateral :: "address \<Rightarrow> nat"
  totalCollateral :: nat
  vault_stock_role :: "address set"
  vault_pauser_role :: "address set"
  vault_paused :: bool

text \<open>SyntheticStock: fees, positions, the AA role and the pause switch.\<close>

record synthetic_stock =
  mintFee :: nat
  redeemFee :: nat
  userAaplBalance :: "address \<Rightarrow> nat"
  stock_aa_role :: "address set"
  stock_paused :: bool

text \<open>DEXRouter: fee, whitelist, aggregator address, the AA role and the pause switch.\<close>

record dex_router =
  routerFee :: nat
  allowedTokens :: "address \<Rightarrow> bool"
  okxDEXAggregator :: address
  router_aa_role :: "address set"
  router_paused :: bool

datatype event =
    Minted address nat nat nat nat
  | Redeemed address nat nat nat nat

text \<open>
  The chain state the engine touches: every ERC-20 by its address (USDC among them), the
  synthetic token, the vault, the oracle, the engine, the router and the emitted events.
\<close>

record world =
  tokens :: "address \<Rightarrow> erc20"
  aaplToken :: aapl_token
  collateralVault :: collateral_vault
  oracleAdapter :: oracle_adapter
  syntheticStock :: synthetic_stock
  dexRouter :: dex_router
  events :: "event list"

text \<open>The addresses the contracts are deployed at (their immutable references).\<close>

record deployment =
  usdc_addr :: address
  vault_addr :: address
  stock_addr :: address
  router_addr :: address

section \<open>OracleAdapter\<close>

definition MAX_PRICE_AGE :: nat where "MAX_PRICE_AGE = 3600"
definition MIN_UPDATE_INTERVAL :: nat where "MIN_UPDATE_INTERVAL = 60"
definition MAX_PRICE_CHANGE :: int where "MAX_PRICE_CHANGE = 5000000000"
definition MIN_PRICE :: int where "MIN_PRICE = 100000000"
definition MAX_PRICE :: int where "MAX_PRICE = 1000000000000"

definition oracle_initialize :: "address \<Rightarrow> nat \<Rightarrow> error + oracle_adapter" where
  "oracle_initialize admin now =
     (if admin = 0 then Inl (Revert ''OracleAdapter: admin cannot be zero address'')
      else Inr \<lparr>latestPrice = 15000000000, lastUpdated = now, updateCount = 0,
                oracle_operators = {}\<rparr>)"

definition pushPrice :: "address \<Rightarrow> nat \<Rightarrow> int \<Rightarrow> oracle_adapter \<Rightarrow> error + oracle_adapter" where
  "pushPrice sender now newPrice s =
     (if sender \<notin> oracle_operators s
        then Inl (AccessControlUnauthorizedAccount sender ''OPERATOR_ROLE'')
      else if \<not> newPrice > 0 then Inl (Revert ''OracleAdapter: price must be positive'')
      else if \<not> newPrice \<ge> MIN_PRICE then Inl (Revert ''OracleAdapter: price below minimum'')
      else if \<not> newPrice \<le> MAX_PRICE then Inl (Revert ''OracleAdapter: price above maximum'')
      else and_then (add256 (lastUpdated s) MIN_UPDATE_INTERVAL) (\<lambda>earliest.
        if \<not> now \<ge> earliest then Inl (Revert ''OracleAdapter: update too frequent'')
        else and_then
          (if updateCount s > 0 then
             and_then (if newPrice > latestPrice s then sub_int256 newPrice (latestPrice s)
                       else sub_int256 (latestPrice s) newPrice) (\<lambda>priceChange.
             and_then (mul_int256 (latestPrice s) MAX_PRICE_CHANGE) (\<lambda>m.
             and_then (div_int256 m 10000000000) (\<lambda>maxChange.
               if \<not> priceChange \<le> maxChange
               then Inl (Revert ''OracleAdapter: price change too large'')
               else Inr ())))
           else Inr ())
          (\<lambda>_. and_then (add256 (updateCount s) 1) (\<lambda>c.
             Inr (s\<lparr>latestPrice := newPrice, lastUpdated := now, updateCount := c\<rparr>)))))"

definition getPrice :: "nat \<Rightarrow> oracle_adapter \<Rightarrow> error + int \<times> nat" where
  "getPrice now s =
     (if \<not> lastUpdated s > 0 then Inl (Revert ''OracleAdapter: no price data available'')
      else and_then (add256 (lastUpdated s) MAX_PRICE_AGE) (\<lambda>limit.
        if \<not> now \<le> limit then Inl (Revert ''OracleAdapter: price data too old'')
        else Inr (latestPrice s, lastUpdated s)))"

definition getPriceUnsafe :: "nat \<Rightarrow> oracle_adapter \<Rightarrow> error + int \<times> nat \<times> bool" where
  "getPriceUnsafe now s =
     (if lastUpdated s = 0 then Inr (latestPrice s, lastUpdated s, True)
      else and_then (add256 (lastUpdated s) MAX_PRICE_AGE) (\<lambda>limit.
        Inr (latestPrice s, lastUpdated s, now > limit)))"

section \<open>AAPLToken\<close>

definition aapl_mint :: "address \<Rightarrow> address \<Rightarrow> nat \<Rightarrow> aapl_token \<Rightarrow> error + aapl_token" where
  "aapl_mint sender to amount t =
     (if sender \<notin> aapl_minters t
        then Inl (AccessControlUnauthorizedAccount sender ''MINTER_ROLE'')
      else if aapl_paused t then Inl EnforcedPause
      else if to = 0 then Inl (Revert ''AAPLToken: mint to zero address'')
      else if \<not> amount > 0 then Inl (Revert ''AAPLToken: mint amount must be positive'')
      else and_then (erc20_mint to amount (aapl_erc20 t)) (\<lambda>e. Inr (t\<lparr>aapl_erc20 := e\<rparr>)))"

definition aapl_burn :: "address \<Rightarrow> address \<Rightarrow> nat \<Rightarrow> aapl_token \<Rightarrow> error + aapl_token" where
  "aapl_burn sender from amount t =
     (if sender \<notin> aapl_burners t
        then Inl (AccessControlUnauthorizedAccount sender ''BURNER_ROLE'')
      else if aapl_paused t then Inl EnforcedPause
      else if from = 0 then Inl (Revert ''AAPLToken: burn from zero address'')
      else if \<not> amount > 0 then Inl (Revert ''AAPLToken: burn amount must be positive'')
      else if \<not> balanceOf (aapl_erc20 t) from \<ge> amount
        then Inl (Revert ''AAPLToken: insufficient balance'')
      else and_then (erc20_burn from amount (aapl_erc20 t)) (\<lambda>e. Inr (t\<lparr>aapl_erc20 := e\<rparr>)))"

section \<open>CollateralVault\<close>

definition usdc :: "deployment \<Rightarrow> world \<Rightarrow> erc20" where
  "usdc d w = tokens w (usdc_addr d)"

definition set_usdc :: "deployment \<Rightarrow> erc20 \<Rightarrow> world \<Rightarrow> world" where
  "set_usdc d t w = w\<lparr>tokens := (tokens w)(usdc_addr d := t)\<rparr>"

definition vault_constructor :: "address \<Rightarrow> address \<Rightarrow> error + collateral_vault" where
  "vault_constructor usdcToken admin =
     (if usdcToken = 0 then Inl (Revert ''CollateralVault: USDC token cannot be zero address'')
      else if admin = 0 then Inl (Revert ''CollateralVault: admin cannot be zero address'')
      else Inr \<lparr>userCollateral = (\<lambda>_. 0), totalCollateral = 0, vault_stock_role = {},
                vault_pauser_role = {admin}, vault_paused = False\<rparr>)"

definition depositCollateral ::
  "deployment \<Rightarrow> address \<Rightarrow> address \<Rightarrow> nat \<Rightarrow> world \<Rightarrow> error + unit \<times> world" where
  "depositCollateral d sender user amount w =
     (let v = collateralVault w in
      if sender \<notin> vault_stock_role v
        then Inl (AccessControlUnauthorizedAccount sender ''SYNTHETIC_STOCK_ROLE'')
      else if vault_paused v then Inl EnforcedPause
      else if user = 0 then Inl (Revert ''CollateralVault: user cannot be zero address'')
      else if \<not> amount > 0 then Inl (Revert ''CollateralVault: amount must be positive'')
      else and_then (erc20_transferFrom (vault_addr d) sender (vault_addr d) amount (usdc d w))
        (\<lambda>t. and_then (add256 (userCollateral v user) amount)
        (\<lambda>uc. and_then (add256 (totalCollateral v) amount)
        (\<lambda>tc. Inr ((), (set_usdc d t w)\<lparr>collateralVault :=
                 v\<lparr>userCollateral := (userCollateral v)(user := uc),
                   totalCollateral := tc\<rparr>\<rparr>)))))"

definition withdrawCollateral ::
  "deployment \<Rightarrow> address \<Rightarrow> address \<Rightarrow> nat \<Rightarrow> address \<Rightarrow> world \<Rightarrow> error + unit \<times> world" where
  "withdrawCollateral d sender user amount recipient w =
     (let v = collateralVault w in
      if sender \<notin> vault_stock_role v
        then Inl (AccessControlUnauthorizedAccount sender ''SYNTHETIC_STOCK_ROLE'')
      else if vault_paused v then Inl EnforcedPause
      else if user = 0 then Inl (Revert ''CollateralVault: user cannot be zero address'')
      else if recipient = 0
        then Inl (Revert ''CollateralVault: recipient cannot be zero address'')
      else if \<not> amount > 0 then Inl (Revert ''CollateralVault: amount must be positive'')
      else if \<not> userCollateral v user \<ge> amount
        then Inl (Revert ''CollateralVault: insufficient collateral'')
      else and_then (sub256 (userCollateral v user) amount)
        (\<lambda>uc. and_then (sub256 (totalCollateral v) amount)
        (\<lambda>tc. and_then (erc20_transfer (vault_addr d) recipient amount (usdc d w))
        (\<lambda>t. Inr ((), (set_usdc d t w)\<lparr>collateralVault :=
                 v\<lparr>userCollateral := (userCollateral v)(user := uc),
                   totalCollateral := tc\<rparr>\<rparr>)))))"

definition getUserCollateral :: "world \<Rightarrow> address \<Rightarrow> nat" where
  "getUserCollateral w user = userCollateral (collateralVault w) user"

definition getTotalCollateral :: "world \<Rightarrow> nat" where
  "getTotalCollateral w = totalCollateral (collateralVault w)"

definition getVaultBalance :: "deployment \<Rightarrow> world \<Rightarrow> nat" where
  "getVaultBalance d w = balanceOf (usdc d w) (vault_addr d)"

definition isVaultSolvent :: "deployment \<Rightarrow> world \<Rightarrow> bool" where
  "isVaultSolvent d w = (balanceOf (usdc d w) (vault_addr d) \<ge> totalCollateral (collateralVault w))"

definition emergencyWithdraw :: "deployment \<Rightarrow> address \<Rightarrow> world \<Rightarrow> error + unit \<times> world" where
  "emergencyWithdraw d sender w =
     (let v = collateralVault w in
      if \<not> vault_paused v then Inl ExpectedPause
      else let userBalance = userCollateral v sender in
        if \<not> userBalance > 0 then Inl (Revert ''CollateralVault: no collateral to withdraw'')
        else and_then (sub256 (totalCollateral v) userBalance)
          (\<lambda>tc. and_then (erc20_transfer (vault_addr d) sender userBalance (usdc d w))
          (\<lambda>t. Inr ((), (set_usdc d t w)\<lparr>collateralVault :=
                   v\<lparr>userCollateral := (userCollateral v)(sender := 0),
                     totalCollateral := tc\<rparr>\<rparr>))))"

section \<open>SyntheticStock\<close>

definition COLLATERAL_RATIO :: nat where "COLLATERAL_RATIO = 150"
definition LIQUIDATION_THRESHOLD :: nat where "LIQUIDATION_THRESHOLD = 120"
definition USDC_DECIMALS :: nat where "USDC_DECIMALS = 6"
definition AAPL_DECIMALS :: nat where "AAPL_DECIMALS = 18"
definition PRICE_DECIMALS :: nat where "PRICE_DECIMALS = 8"

text \<open>
  The collateral formula that \<open>mint\<close> (\<open>collateralUsed\<close>) and \<open>redeem\<close>
  (\<open>collateralReturned\<close>) both write out:
  \<open>(aaplAmount * aaplPrice * COLLATERAL_RATIO) / (100 * 10**(18 + 8 - 6))\<close>.
\<close>

definition collateralFor :: "nat \<Rightarrow> nat \<Rightarrow> error + nat" where
  "collateralFor aaplAmount aaplPrice =
     and_then (mul256 aaplAmount aaplPrice) (\<lambda>x.
     and_then (mul256 x COLLATERAL_RATIO) (\<lambda>y.
       div256 y (100 * 10 ^ (AAPL_DECIMALS + PRICE_DECIMALS - USDC_DECIMALS))))"

definition mint ::
  "deployment \<Rightarrow> address \<Rightarrow> nat \<Rightarrow> address \<Rightarrow> nat \<Rightarrow> world \<Rightarrow> error + nat \<times> world" where
  "mint d sender now user aaplAmount w =
     (let s = syntheticStock w in
      if sender \<notin> stock_aa_role s then Inl (AccessControlUnauthorizedAccount sender ''AA_ROLE'')
      else if stock_paused s then Inl EnforcedPause
      else if user = 0 then Inl (Revert ''SyntheticStock: invalid user'')
      else if \<not> aaplAmount > 0 then Inl (Revert ''SyntheticStock: amount must be positive'')
      else and_then (getPrice now (oracleAdapter w)) (\<lambda>(price, _).
        if \<not> price > 0 then Inl (Revert ''SyntheticStock: invalid price'')
        else let aaplPrice = nat price in
        and_then (collateralFor aaplAmount aaplPrice) (\<lambda>collateralUsed.
        if \<not> collateralUsed > 0 then Inl (Revert ''SyntheticStock: insufficient mint amount'')
        else if \<not> getUserCollateral w user \<ge> collateralUsed
          then Inl (Revert ''SyntheticStock: insufficient collateral in vault'')
        else and_then (mul256 aaplAmount (mintFee s)) (\<lambda>f.
        and_then (div256 f 10000) (\<lambda>fee.
        and_then (sub256 aaplAmount fee) (\<lambda>netAaplAmount.
        and_then (withdrawCollateral d (stock_addr d) user collateralUsed (stock_addr d) w)
          (\<lambda>(_, w1).
        and_then (aapl_mint (stock_addr d) user netAaplAmount (aaplToken w1)) (\<lambda>tk.
        and_then (add256 (userAaplBalance s user) netAaplAmount) (\<lambda>pos.
          Inr (collateralUsed,
               w1\<lparr>aaplToken := tk,
                  syntheticStock := s\<lparr>userAaplBalance := (userAaplBalance s)(user := pos)\<rparr>,
                  events := events w1 @
                    [Minted user collateralUsed netAaplAmount aaplPrice fee]\<rparr>))))))))))"

definition redeem ::
  "deployment \<Rightarrow> address \<Rightarrow> nat \<Rightarrow> address \<Rightarrow> nat \<Rightarrow> world \<Rightarrow> error + nat \<times> world" where
  "redeem d sender now user aaplAmount w =
     (let s = syntheticStock w in
      if sender \<notin> stock_aa_role s then Inl (AccessControlUnauthorizedAccount sender ''AA_ROLE'')
      else if stock_paused s then Inl EnforcedPause
      else if user = 0 then Inl (Revert ''SyntheticStock: invalid user'')
      else if \<not> aaplAmount > 0 then Inl (Revert ''SyntheticStock: amount must be positive'')
      else if \<not> balanceOf (aapl_erc20 (aaplToken w)) user \<ge> aaplAmount
        then Inl (Revert ''SyntheticStock: insufficient AAPL-x balance'')
      else if \<not> userAaplBalance s user \<ge> aaplAmount
        then Inl (Revert ''SyntheticStock: insufficient user position'')
      else and_then (getPrice now (oracleAdapter w)) (\<lambda>(price, _).
        if \<not> price > 0 then Inl (Revert ''SyntheticStock: invalid price'')
        else let aaplPrice = nat price in
        and_then (collateralFor aaplAmount aaplPrice) (\<lambda>collateralReturned.
        if \<not> collateralReturned > 0 then Inl (Revert ''SyntheticStock: no collateral to redeem'')
        else and_then (mul256 collateralReturned (redeemFee s)) (\<lambda>f.
        and_then (div256 f 10000) (\<lambda>fee.
        and_then (sub256 collateralReturned fee) (\<lambda>netReturn.
        and_then (aapl_burn (stock_addr d) user aaplAmount (aaplToken w)) (\<lambda>tk.
        and_then (sub256 (userAaplBalance s user) aaplAmount) (\<lambda>pos.
        and_then (erc20_approve (stock_addr d) (vault_addr d) netReturn (usdc d w)) (\<lambda>t.
        and_then (depositCollateral d (stock_addr d) user netReturn
                   ((set_usdc d t w)\<lparr>aaplToken := tk,
                      syntheticStock := s\<lparr>userAaplBalance := (userAaplBalance s)(user := pos)\<rparr>\<rparr>))
          (\<lambda>(_, w1).
          Inr (netReturn,
               w1\<lparr>events := events w1 @
                    [Redeemed user aaplAmount netReturn aaplPrice fee]\<rparr>)))))))))))"


text \<open>The vault's pause switch (\<open>pause\<close>, \<open>unpause\<close>, both for the pauser role).\<close>

definition vault_pause :: "address \<Rightarrow> world \<Rightarrow> error + unit \<times> world" where
  "vault_pause sender w =
     (let v = collateralVault w in
      if sender \<notin> vault_pauser_role v
        then Inl (AccessControlUnauthorizedAccount sender ''PAUSER_ROLE'')
      else if vault_paused v then Inl EnforcedPause
      else Inr ((), w\<lparr>collateralVault := v\<lparr>vault_paused := True\<rparr>\<rparr>))"

definition vault_unpause :: "address \<Rightarrow> world \<Rightarrow> error + unit \<times> world" where
  "vault_unpause sender w =
     (let v = collateralVault w in
      if sender \<notin> vault_pauser_role v
        then Inl (AccessControlUnauthorizedAccount sender ''PAUSER_ROLE'')
      else if \<not> vault_paused v then Inl ExpectedPause
      else Inr ((), w\<lparr>collateralVault := v\<lparr>vault_paused := False\<rparr>\<rparr>))"

section \<open>Sequences of ledger and engine operations\<close>

text \<open>
  One transaction per operation, with its \<open>msg.sender\<close> (and \<open>block.timestamp\<close> where
  the entry point reads the oracle). A transaction that reverts changes nothing.
\<close>

datatype ledger_op =
    DepositCollateral address address nat
  | WithdrawCollateral address address nat address
  | EmergencyWithdraw address
  | Mint address nat address nat
  | Redeem address nat address nat
  | VaultPause address
  | VaultUnpause address

fun apply_op :: "deployment \<Rightarrow> ledger_op \<Rightarrow> world \<Rightarrow> world" where
  "apply_op d (DepositCollateral sender user amount) w =
     commit w (depositCollateral d sender user amount w)"
| "apply_op d (WithdrawCollateral sender user amount recipient) w =
     commit w (withdrawCollateral d sender user amount recipient w)"
| "apply_op d (EmergencyWithdraw sender) w = commit w (emergencyWithdraw d sender w)"
| "apply_op d (Mint sender now user aaplAmount) w = commit w (mint d sender now user aaplAmount w)"
| "apply_op d (Redeem sender now user aaplAmount) w =
     commit w (redeem d sender now user aaplAmount w)"
| "apply_op d (VaultPause sender) w = commit w (vault_pause sender w)"
| "apply_op d (VaultUnpause sender) w = commit w (vault_unpause sender w)"

fun run_ops :: "deployment \<Rightarrow> ledger_op list \<Rightarrow> world \<Rightarrow> world" where
  "run_ops d [] w = w"
| "run_ops d (op # ops) w = run_ops d ops (apply_op d op w)"


section \<open>DEXRouter\<close>

text \<open>
  The aggregator is an external contract reached by a low-level call: \<open>agg a data w\<close> is
  \<open>None\<close> when the call to address \<open>a\<close> fails and the state it leaves otherwise. Each
  swap entry point is written in two parts: the statements up to the point where the
  output is measured as a balance delta (\<open>_realized\<close>), and the rest, which starts with
  the slippage \<open>require\<close>.
\<close>

type_synonym aggregator = "address \<Rightarrow> bytes \<Rightarrow> world \<Rightarrow> world option"

definition set_token :: "address \<Rightarrow> erc20 \<Rightarrow> world \<Rightarrow> world" where
  "set_token a t w = w\<lparr>tokens := (tokens w)(a := t)\<rparr>"

definition swap_realized ::
  "deployment \<Rightarrow> aggregator \<Rightarrow> address \<Rightarrow> address \<Rightarrow> address \<Rightarrow> nat \<Rightarrow> bytes \<Rightarrow> address
     \<Rightarrow> world \<Rightarrow> error + nat \<times> world" where
  "swap_realized d agg sender tokenIn tokenOut amountIn swapData recipient w =
     (let r = dexRouter w in
      if sender \<notin> router_aa_role r then Inl (AccessControlUnauthorizedAccount sender ''AA_ROLE'')
      else if router_paused r then Inl EnforcedPause
      else if \<not> allowedTokens r tokenIn then Inl (Revert ''DEXRouter: input token not allowed'')
      else if \<not> allowedTokens r tokenOut then Inl (Revert ''DEXRouter: output token not allowed'')
      else if \<not> amountIn > 0 then Inl (Revert ''DEXRouter: amount must be positive'')
      else if recipient = 0 then Inl (Revert ''DEXRouter: invalid recipient'')
      else and_then (erc20_transferFrom (router_addr d) sender (router_addr d) amountIn
                      (tokens w tokenIn)) (\<lambda>t1.
        let w1 = set_token tokenIn t1 w in
        and_then (mul256 amountIn (routerFee r)) (\<lambda>x.
        and_then (div256 x 10000) (\<lambda>fee.
        and_then (sub256 amountIn fee) (\<lambda>netAmountIn.
        and_then (erc20_approve (router_addr d) (okxDEXAggregator r) netAmountIn
                   (tokens w1 tokenIn)) (\<lambda>t2.
        let w2 = set_token tokenIn t2 w1;
            outputBalanceBefore = balanceOf (tokens w2 tokenOut) (router_addr d) in
        case agg (okxDEXAggregator r) swapData w2 of
          None \<Rightarrow> Inl (Revert ''DEXRouter: swap failed'')
        | Some w3 \<Rightarrow>
            let outputBalanceAfter = balanceOf (tokens w3 tokenOut) (router_addr d) in
            and_then (sub256 outputBalanceAfter outputBalanceBefore) (\<lambda>amountOut.
              Inr (amountOut, w3))))))))"

definition swap ::
  "deployment \<Rightarrow> aggregator \<Rightarrow> address \<Rightarrow> address \<Rightarrow> address \<Rightarrow> nat \<Rightarrow> nat \<Rightarrow> bytes
     \<Rightarrow> address \<Rightarrow> world \<Rightarrow> error + nat \<times> world" where
  "swap d agg sender tokenIn tokenOut amountIn minAmountOut swapData recipient w =
     and_then (swap_realized d agg sender tokenIn tokenOut amountIn swapData recipient w)
       (\<lambda>(amountOut, w3).
        if \<not> amountOut \<ge> minAmountOut
          then Inl (Revert ''DEXRouter: insufficient output amount'')
        else and_then (erc20_transfer (router_addr d) recipient amountOut (tokens w3 tokenOut))
          (\<lambda>t. Inr (amountOut, set_token tokenOut t w3)))"

definition swapToUSDCAndDeposit_realized ::
  "deployment \<Rightarrow> aggregator \<Rightarrow> address \<Rightarrow> address \<Rightarrow> nat \<Rightarrow> bytes \<Rightarrow> address
     \<Rightarrow> world \<Rightarrow> error + nat \<times> world" where
  "swapToUSDCAndDeposit_realized d agg sender tokenIn amountIn swapData user w =
     (let r = dexRouter w in
      if sender \<notin> router_aa_role r then Inl (AccessControlUnauthorizedAccount sender ''AA_ROLE'')
      else if router_paused r then Inl EnforcedPause
      else if \<not> allowedTokens r tokenIn then Inl (Revert ''DEXRouter: input token not allowed'')
      else if \<not> amountIn > 0 then Inl (Revert ''DEXRouter: amount must be positive'')
      else if user = 0 then Inl (Revert ''DEXRouter: invalid user'')
      else if \<not> tokenIn \<noteq> usdc_addr d then Inl (Revert ''DEXRouter: use depositUSDC for USDC'')
      else and_then (erc20_transferFrom (router_addr d) sender (router_addr d) amountIn
                      (tokens w tokenIn)) (\<lambda>t1.
        let w1 = set_token tokenIn t1 w in
        and_then (mul256 amountIn (routerFee r)) (\<lambda>x.
        and_then (div256 x 10000) (\<lambda>fee.
        and_then (sub256 amountIn fee) (\<lambda>netAmountIn.
        and_then (erc20_approve (router_addr d) (okxDEXAggregator r) netAmountIn
                   (tokens w1 tokenIn)) (\<lambda>t2.
        let w2 = set_token tokenIn t2 w1;
            usdcBalanceBefore = balanceOf (usdc d w2) (router_addr d) in
        case agg (okxDEXAggregator r) swapData w2 of
          None \<Rightarrow> Inl (Revert ''DEXRouter: swap failed'')
        | Some w3 \<Rightarrow>
            let usdcBalanceAfter = balanceOf (usdc d w3) (router_addr d) in
            and_then (sub256 usdcBalanceAfter usdcBalanceBefore) (\<lambda>usdcReceived.
              Inr (usdcReceived, w3))))))))"

definition swapToUSDCAndDeposit ::
  "deployment \<Rightarrow> aggregator \<Rightarrow> address \<Rightarrow> address \<Rightarrow> nat \<Rightarrow> nat \<Rightarrow> bytes \<Rightarrow> address
     \<Rightarrow> world \<Rightarrow> error + nat \<times> world" where
  "swapToUSDCAndDeposit d agg sender tokenIn amountIn minUsdcOut swapData user w =
     and_then (swapToUSDCAndDeposit_realized d agg sender tokenIn amountIn swapData user w)
       (\<lambda>(usdcReceived, w3).
        if \<not> usdcReceived \<ge> minUsdcOut
          then Inl (Revert ''DEXRouter: insufficient USDC received'')
        else and_then (erc20_approve (router_addr d) (vault_addr d) usdcReceived (usdc d w3))
          (\<lambda>t. and_then (depositCollateral d (router_addr d) user usdcReceived (set_usdc d t w3))
          (\<lambda>(_, w4). Inr (usdcReceived, w4))))"

definition depositUSDC ::
  "deployment \<Rightarrow> address \<Rightarrow> address \<Rightarrow> nat \<Rightarrow> world \<Rightarrow> error + unit \<times> world" where
  "depositUSDC d sender user usdcAmount w =
     (let r = dexRouter w in
      if sender \<notin> router_aa_role r then Inl (AccessControlUnauthorizedAccount sender ''AA_ROLE'')
      else if router_paused r then Inl EnforcedPause
      else if user = 0 then Inl (Revert ''DEXRouter: invalid user'')
      else if \<not> usdcAmount > 0 then Inl (Revert ''DEXRouter: amount must be positive'')
      else and_then (erc20_transferFrom (router_addr d) sender (router_addr d) usdcAmount
                      (usdc d w)) (\<lambda>t1.
        and_then (mul256 usdcAmount (routerFee r)) (\<lambda>x.
        and_then (div256 x 10000) (\<lambda>fee.
        and_then (sub256 usdcAmount fee) (\<lambda>netAmount.
        and_then (erc20_approve (router_addr d) (vault_addr d) netAmount t1) (\<lambda>t2.
          depositCollateral d (router_addr d) user netAmount (set_usdc d t2 w)))))))"

definition swapUSDCToToken_realized ::
  "deployment \<Rightarrow> aggregator \<Rightarrow> address \<Rightarrow> address \<Rightarrow> nat \<Rightarrow> bytes \<Rightarrow> world
     \<Rightarrow> error + nat \<times> world" where
  "swapUSDCToToken_realized d agg sender tokenOut usdcAmount swapData w =
     (let r = dexRouter w in
      and_then (erc20_transferFrom (router_addr d) sender (router_addr d) usdcAmount
                 (usdc d w)) (\<lambda>t1.
        and_then (erc20_approve (router_addr d) (okxDEXAggregator r) usdcAmount t1) (\<lambda>t2.
        let w2 = set_usdc d t2 w;
            outputBalanceBefore = balanceOf (tokens w2 tokenOut) (router_addr d) in
        case agg (okxDEXAggregator r) swapData w2 of
          None \<Rightarrow> Inl (Revert ''DEXRouter: swap failed'')
        | Some w3 \<Rightarrow>
            let outputBalanceAfter = balanceOf (tokens w3 tokenOut) (router_addr d) in
            and_then (sub256 outputBalanceAfter outputBalanceBefore) (\<lambda>tokenAmountOut.
              Inr (tokenAmountOut, w3)))))"

definition swapUSDCToToken ::
  "deployment \<Rightarrow> aggregator \<Rightarrow> address \<Rightarrow> address \<Rightarrow> nat \<Rightarrow> nat \<Rightarrow> bytes \<Rightarrow> address
     \<Rightarrow> world \<Rightarrow> error + nat \<times> world" where
  "swapUSDCToToken d agg sender tokenOut usdcAmount minTokenOut swapData recipient w =
     (let r = dexRouter w in
      if sender \<notin> router_aa_role r then Inl (AccessControlUnauthorizedAccount sender ''AA_ROLE'')
      else if router_paused r then Inl EnforcedPause
      else if \<not> allowedTokens r tokenOut then Inl (Revert ''DEXRouter: output token not allowed'')
      else if \<not> usdcAmount > 0 then Inl (Revert ''DEXRouter: amount must be positive'')
      else if recipient = 0 then Inl (Revert ''DEXRouter: invalid recipient'')
      else if tokenOut = usdc_addr d then
        and_then (erc20_transferFrom (router_addr d) sender recipient usdcAmount (usdc d w))
          (\<lambda>t. Inr (usdcAmount, set_usdc d t w))
      else and_then (swapUSDCToToken_realized d agg sender tokenOut usdcAmount swapData w)
        (\<lambda>(tokenAmountOut, w3).
         if \<not> tokenAmountOut \<ge> minTokenOut
           then Inl (Revert ''DEXRouter: insufficient output amount'')
         else and_then (erc20_transfer (router_addr d) recipient tokenAmountOut
                         (tokens w3 tokenOut))
           (\<lambda>t. Inr (tokenAmountOut, set_token tokenOut t w3))))"

section \<open>SmartAccount\<close>

text \<open>
  \<open>Recovery\<close> is the struct with its nested mapping. \<open>delete activeRecovery\<close> resets
  the struct's value members and, as Solidity defines \<open>delete\<close>, leaves the mapping
  member as it is.
\<close>

record recovery =
  newOwner :: address
  confirmations :: nat
  confirmed :: "address \<Rightarrow> bool"
  deadline :: nat

record smart_account =
  owner :: address
  guardians :: "address list"
  admin_role :: "address set"
  guardian_role :: "address set"
  session_key_role :: "address set"
  sessionKeyExpiry :: "address \<Rightarrow> nat"
  activeRecovery :: recovery
  account_paused :: bool

definition GUARDIAN_THRESHOLD :: nat where "GUARDIAN_THRESHOLD = 2"
definition SESSION_KEY_DURATION :: nat where "SESSION_KEY_DURATION = 604800"
definition RECOVERY_PERIOD :: nat where "RECOVERY_PERIOD = 259200"

definition delete_recovery :: "recovery \<Rightarrow> recovery" where
  "delete_recovery r = r\<lparr>newOwner := 0, confirmations := 0, deadline := 0\<rparr>"

definition account_constructor ::
  "address \<Rightarrow> address list \<Rightarrow> address \<Rightarrow> address \<Rightarrow> address \<Rightarrow> error + smart_account" where
  "account_constructor owner0 guardians0 dexRouter0 syntheticStock0 paymaster0 =
     (if owner0 = 0 then Inl (Revert ''SmartAccount: invalid owner'')
      else if \<not> length guardians0 = 3 then Inl (Revert ''SmartAccount: need exactly 3 guardians'')
      else if dexRouter0 = 0 then Inl (Revert ''SmartAccount: invalid DEX router'')
      else if syntheticStock0 = 0 then Inl (Revert ''SmartAccount: invalid SyntheticStock'')
      else if paymaster0 = 0 then Inl (Revert ''SmartAccount: invalid Paymaster'')
      else if list_ex (\<lambda>g. g = 0) guardians0 then Inl (Revert ''SmartAccount: invalid guardian'')
      else Inr \<lparr>owner = owner0, guardians = guardians0, admin_role = {owner0},
                guardian_role = set guardians0, session_key_role = {},
                sessionKeyExpiry = (\<lambda>_. 0),
                activeRecovery = \<lparr>newOwner = 0, confirmations = 0, confirmed = (\<lambda>_. False),
                                  deadline = 0\<rparr>,
                account_paused = False\<rparr>)"

definition initiateRecovery ::
  "address \<Rightarrow> nat \<Rightarrow> address \<Rightarrow> smart_account \<Rightarrow> error + smart_account" where
  "initiateRecovery sender now newOwner0 a =
     (let r = activeRecovery a in
      if sender \<notin> guardian_role a
        then Inl (AccessControlUnauthorizedAccount sender ''GUARDIAN_ROLE'')
      else if newOwner0 = 0 then Inl (Revert ''SmartAccount: invalid new owner'')
      else if \<not> deadline r = 0 then Inl (Revert ''SmartAccount: recovery already active'')
      else and_then (add256 now RECOVERY_PERIOD) (\<lambda>dl.
        Inr (a\<lparr>activeRecovery := r\<lparr>newOwner := newOwner0, confirmations := 1,
                                   confirmed := (confirmed r)(sender := True),
                                   deadline := dl\<rparr>\<rparr>)))"

definition confirmRecovery :: "address \<Rightarrow> nat \<Rightarrow> smart_account \<Rightarrow> error + smart_account" where
  "confirmRecovery sender now a =
     (let r = activeRecovery a in
      if sender \<notin> guardian_role a
        then Inl (AccessControlUnauthorizedAccount sender ''GUARDIAN_ROLE'')
      else if \<not> deadline r > 0 then Inl (Revert ''SmartAccount: no active recovery'')
      else if \<not> now < deadline r then Inl (Revert ''SmartAccount: recovery expired'')
      else if \<not> \<not> confirmed r sender then Inl (Revert ''SmartAccount: already confirmed'')
      else and_then (add256 (confirmations r) 1) (\<lambda>c.
        let r1 = r\<lparr>confirmed := (confirmed r)(sender := True), confirmations := c\<rparr> in
        if confirmations r1 \<ge> GUARDIAN_THRESHOLD then
          let oldOwner = owner a in
          Inr (a\<lparr>owner := newOwner r1,
                 admin_role := insert (newOwner r1) (admin_role a - {oldOwner}),
                 activeRecovery := delete_recovery r1\<rparr>)
        else Inr (a\<lparr>activeRecovery := r1\<rparr>)))"

definition cancelRecovery :: "address \<Rightarrow> smart_account \<Rightarrow> error + smart_account" where
  "cancelRecovery sender a =
     (if \<not> sender = owner a then Inl (Revert ''SmartAccount: only owner'')
      else if \<not> deadline (activeRecovery a) > 0
        then Inl (Revert ''SmartAccount: no active recovery'')
      else Inr (a\<lparr>activeRecovery := delete_recovery (activeRecovery a)\<rparr>))"

definition grantSessionKey ::
  "address \<Rightarrow> nat \<Rightarrow> address \<Rightarrow> smart_account \<Rightarrow> error + smart_account" where
  "grantSessionKey sender now sessionKey a =
     (if \<not> sender = owner a then Inl (Revert ''SmartAccount: only owner'')
      else if sessionKey = 0 then Inl (Revert ''SmartAccount: invalid session key'')
      else and_then (add256 now SESSION_KEY_DURATION) (\<lambda>e.
        Inr (a\<lparr>sessionKeyExpiry := (sessionKeyExpiry a)(sessionKey := e),
               session_key_role := insert sessionKey (session_key_role a)\<rparr>)))"

definition revokeSessionKey :: "address \<Rightarrow> address \<Rightarrow> smart_account \<Rightarrow> error + smart_account" where
  "revokeSessionKey sender sessionKey a =
     (if \<not> sender = owner a then Inl (Revert ''SmartAccount: only owner'')
      else Inr (a\<lparr>sessionKeyExpiry := (sessionKeyExpiry a)(sessionKey := 0),
                 session_key_role := session_key_role a - {sessionKey}\<rparr>))"

definition account_pause :: "address \<Rightarrow> smart_account \<Rightarrow> error + smart_account" where
  "account_pause sender a =
     (if \<not> (sender = owner a \<or> sender \<in> guardian_role a)
        then Inl (Revert ''SmartAccount: unauthorized'')
      else if account_paused a then Inl EnforcedPause
      else Inr (a\<lparr>account_paused := True\<rparr>))"

definition account_unpause :: "address \<Rightarrow> smart_account \<Rightarrow> error + smart_account" where
  "account_unpause sender a =
     (if \<not> sender = owner a then Inl (Revert ''SmartAccount: only owner'')
      else if \<not> account_paused a then Inl ExpectedPause
      else Inr (a\<lparr>account_paused := False\<rparr>))"

text \<open>
  Modelled from the spec: the role administration the account inherits from the access
  control base contract (not among the sources): the holders of the admin role grant and
  revoke any role, and an account may renounce a role of its own.
\<close>

datatype role = DEFAULT_ADMIN_ROLE | GUARDIAN_ROLE | SESSION_KEY_ROLE

definition role_members :: "role \<Rightarrow> smart_account \<Rightarrow> address set" where
  "role_members r a = (case r of DEFAULT_ADMIN_ROLE \<Rightarrow> admin_role a
      | GUARDIAN_ROLE \<Rightarrow> guardian_role a | SESSION_KEY_ROLE \<Rightarrow> session_key_role a)"

definition set_role_members :: "role \<Rightarrow> address set \<Rightarrow> smart_account \<Rightarrow> smart_account" where
  "set_role_members r m a = (case r of DEFAULT_ADMIN_ROLE \<Rightarrow> a\<lparr>admin_role := m\<rparr>
      | GUARDIAN_ROLE \<Rightarrow> a\<lparr>guardian_role := m\<rparr> | SESSION_KEY_ROLE \<Rightarrow> a\<lparr>session_key_role := m\<rparr>)"

definition grantRole :: "address \<Rightarrow> role \<Rightarrow> address \<Rightarrow> smart_account \<Rightarrow> error + smart_account" where
  "grantRole sender r account a =
     (if sender \<notin> admin_role a
        then Inl (AccessControlUnauthorizedAccount sender ''DEFAULT_ADMIN_ROLE'')
      else Inr (set_role_members r (insert account (role_members r a)) a))"

definition revokeRole :: "address \<Rightarrow> role \<Rightarrow> address \<Rightarrow> smart_account \<Rightarrow> error + smart_account" where
  "revokeRole sender r account a =
     (if sender \<notin> admin_role a
        then Inl (AccessControlUnauthorizedAccount sender ''DEFAULT_ADMIN_ROLE'')
      else Inr (set_role_members r (role_members r a - {account}) a))"

definition renounceRole :: "address \<Rightarrow> role \<Rightarrow> smart_account \<Rightarrow> error + smart_account" where
  "renounceRole sender r a = Inr (set_role_members r (role_members r a - {sender}) a)"

text \<open>The account's history: one transaction per operation; a revert changes nothing.\<close>

datatype account_op =
    InitiateRecovery address nat address
  | ConfirmRecovery address nat
  | CancelRecovery address
  | GrantSessionKey address nat address
  | RevokeSessionKey address address
  | AccountPause address
  | AccountUnpause address
  | GrantRole address role address
  | RevokeRole address role address
  | RenounceRole address role

definition keep :: "'s \<Rightarrow> error + 's \<Rightarrow> 's" where
  "keep s r = (case r of Inl e \<Rightarrow> s | Inr s' \<Rightarrow> s')"

fun account_step :: "account_op \<Rightarrow> smart_account \<Rightarrow> smart_account" where
  "account_step (InitiateRecovery sender now n) a = keep a (initiateRecovery sender now n a)"
| "account_step (ConfirmRecovery sender now) a = keep a (confirmRecovery sender now a)"
| "account_step (CancelRecovery sender) a = keep a (cancelRecovery sender a)"
| "account_step (GrantSessionKey sender now k) a = keep a (grantSessionKey sender now k a)"
| "account_step (RevokeSessionKey sender k) a = keep a (revokeSessionKey sender k a)"
| "account_step (AccountPause sender) a = keep a (account_pause sender a)"
| "account_step (AccountUnpause sender) a = keep a (account_unpause sender a)"
| "account_step (GrantRole sender r x) a = keep a (grantRole sender r x a)"
| "account_step (RevokeRole sender r x) a = keep a (revokeRole sender r x a)"
| "account_step (RenounceRole sender r) a = keep a (renounceRole sender r a)"

fun run_account :: "account_op list \<Rightarrow> smart_account \<Rightarrow> smart_account" where
  "run_account [] a = a"
| "run_account (op # ops) a = run_account ops (account_step op a)"

subsection \<open>executeBatch\<close>

text \<open>
  The targets are arbitrary contracts: \<open>ext target value data s\<close> is what a low-level
  call does to the chain state \<open>s\<close> (the account's own storage and everything else),
  \<open>Inl\<close> of the returned data when the callee reverts (its effects are rolled back, the
  caller goes on) and \<open>Inr\<close> of the returned data and the new state otherwise.
\<close>

type_synonym 'w chain = "smart_account \<times> 'w"
type_synonym 'w callee = "address \<Rightarrow> nat \<Rightarrow> bytes \<Rightarrow> 'w chain \<Rightarrow> bytes + bytes \<times> 'w chain"

definition low_level_call ::
  "'w callee \<Rightarrow> address \<Rightarrow> nat \<Rightarrow> bytes \<Rightarrow> 'w chain \<Rightarrow> bool \<times> bytes \<times> 'w chain" where
  "low_level_call ext target v data s =
     (case ext target v data s of Inl r \<Rightarrow> (False, r, s) | Inr (r, s') \<Rightarrow> (True, r, s'))"

fun batch_loop ::
  "'w callee \<Rightarrow> (address \<times> nat \<times> bytes) list \<Rightarrow> 'w chain \<Rightarrow> bool list \<times> bytes list \<times> 'w chain" where
  "batch_loop ext [] s = ([], [], s)"
| "batch_loop ext ((target, v, data) # calls) s =
     (let (ok, res, s1) = low_level_call ext target v data s;
          (success, results, s2) = batch_loop ext calls s1
      in (ok # success, res # results, s2))"

definition onlyOwnerOrSession :: "address \<Rightarrow> nat \<Rightarrow> smart_account \<Rightarrow> bool" where
  "onlyOwnerOrSession sender now a =
     (sender = owner a \<or> (sender \<in> session_key_role a \<and> sessionKeyExpiry a sender > now))"

definition executeBatch ::
  "'w callee \<Rightarrow> address \<Rightarrow> nat \<Rightarrow> address list \<Rightarrow> nat list \<Rightarrow> bytes list \<Rightarrow> 'w chain
     \<Rightarrow> error + (bool list \<times> bytes list) \<times> 'w chain" where
  "executeBatch ext sender now targets vals callData s =
     (if \<not> onlyOwnerOrSession sender now (fst s) then Inl (Revert ''SmartAccount: unauthorized'')
      else if account_paused (fst s) then Inl EnforcedPause
      else if \<not> (length targets = length vals \<and> length vals = length callData)
        then Inl (Revert ''SmartAccount: length mismatch'')
      else (case batch_loop ext (zip targets (zip vals callData)) s of
              (success, results, s') \<Rightarrow> Inr ((success, results), s')))"

section \<open>Paymaster\<close>

record paymaster =
  usdcToGasRate :: nat
  okbToGasRate :: nat
  userGasUsed :: "address \<Rightarrow> nat"
  lastResetTime :: "address \<Rightarrow> nat"
  gasReserve :: nat
  minimumGasReserve :: nat
  paymaster_paused :: bool

text \<open>The paymaster with the two settlement tokens it reads and charges.\<close>

record sponsor =
  pm :: paymaster
  usdcToken :: erc20
  okbToken :: erc20

definition RATE_LIMIT_PERIOD :: nat where "RATE_LIMIT_PERIOD = 3600"
definition MAX_GAS_PER_HOUR :: nat where "MAX_GAS_PER_HOUR = 10000000000000000"

definition paymaster_constructor :: "address \<Rightarrow> address \<Rightarrow> address \<Rightarrow> error + paymaster" where
  "paymaster_constructor usdcToken0 okbToken0 admin =
     (if usdcToken0 = 0 then Inl (Revert ''Paymaster: USDC cannot be zero address'')
      else if okbToken0 = 0 then Inl (Revert ''Paymaster: OKB cannot be zero address'')
      else if admin = 0 then Inl (Revert ''Paymaster: admin cannot be zero address'')
      else Inr \<lparr>usdcToGasRate = 1000, okbToGasRate = 500, userGasUsed = (\<lambda>_. 0),
                lastResetTime = (\<lambda>_. 0), gasReserve = 0,
                minimumGasReserve = 100000000000000000, paymaster_paused = False\<rparr>)"

definition isRateLimited :: "nat \<Rightarrow> address \<Rightarrow> nat \<Rightarrow> paymaster \<Rightarrow> error + bool" where
  "isRateLimited now user gasCost p =
     (let currentPeriod = now div RATE_LIMIT_PERIOD;
          userLastPeriod = lastResetTime p user div RATE_LIMIT_PERIOD in
      if currentPeriod > userLastPeriod then Inr False
      else and_then (add256 (userGasUsed p user) gasCost) (\<lambda>total.
        Inr (total > MAX_GAS_PER_HOUR)))"

definition updateGasUsage :: "nat \<Rightarrow> address \<Rightarrow> nat \<Rightarrow> paymaster \<Rightarrow> error + paymaster" where
  "updateGasUsage now user gasCost p =
     (let currentPeriod = now div RATE_LIMIT_PERIOD;
          userLastPeriod = lastResetTime p user div RATE_LIMIT_PERIOD in
      if currentPeriod > userLastPeriod then
        Inr (p\<lparr>userGasUsed := (userGasUsed p)(user := gasCost),
               lastResetTime := (lastResetTime p)(user := now)\<rparr>)
      else and_then (add256 (userGasUsed p user) gasCost) (\<lambda>total.
        Inr (p\<lparr>userGasUsed := (userGasUsed p)(user := total)\<rparr>)))"

definition canPayForGas :: "nat \<Rightarrow> address \<Rightarrow> nat \<Rightarrow> sponsor \<Rightarrow> error + bool" where
  "canPayForGas now user gasCost s =
     and_then (isRateLimited now user gasCost (pm s)) (\<lambda>limited.
       if limited then Inr False
       else and_then (mul256 gasCost (usdcToGasRate (pm s))) (\<lambda>x.
         and_then (div256 x (10 ^ 18)) (\<lambda>usdcAmount.
         and_then (mul256 gasCost (okbToGasRate (pm s))) (\<lambda>y.
         and_then (div256 y (10 ^ 18)) (\<lambda>okbAmount.
           Inr (balanceOf (usdcToken s) user \<ge> usdcAmount
                \<or> balanceOf (okbToken s) user \<ge> okbAmount))))))"

text \<open>
  \<open>address(bytes20(userOp[4:24]))\<close>: the slice reverts on a shorter \<open>userOp\<close>; the
  twenty bytes are read big-endian.
\<close>

definition sender_of_userOp :: "bytes \<Rightarrow> error + address" where
  "sender_of_userOp userOp =
     (if length userOp < 24 then Inl (Revert [])
      else Inr (foldl (\<lambda>acc b. acc * 256 + b) 0 (take 20 (drop 4 userOp))))"

text \<open>
  The context is \<open>abi.encode(sender, maxCost, userOpHash)\<close> on success and the empty
  byte string (here \<open>None\<close>) on refusal; \<open>validationData\<close> is 0 for valid, 1 for refused.
\<close>

definition validatePaymasterUserOp ::
  "nat \<Rightarrow> bytes \<Rightarrow> nat \<Rightarrow> nat \<Rightarrow> sponsor \<Rightarrow> error + (address \<times> nat \<times> nat) option \<times> nat" where
  "validatePaymasterUserOp now userOp userOpHash maxCost s =
     and_then (sender_of_userOp userOp) (\<lambda>sender.
     and_then (isRateLimited now sender maxCost (pm s)) (\<lambda>limited.
       if limited then Inr (None, 1)
       else and_then (add256 maxCost (minimumGasReserve (pm s))) (\<lambda>needed.
         if gasReserve (pm s) < needed then Inr (None, 1)
         else Inr (Some (sender, maxCost, userOpHash), 0))))"

definition chargeInUSDC ::
  "address \<Rightarrow> address \<Rightarrow> nat \<Rightarrow> sponsor \<Rightarrow> error + bool \<times> sponsor" where
  "chargeInUSDC self user gasAmount s =
     and_then (mul256 gasAmount (usdcToGasRate (pm s))) (\<lambda>x.
     and_then (div256 x (10 ^ 18)) (\<lambda>usdcAmount.
       if balanceOf (usdcToken s) user \<ge> usdcAmount then
         and_then (erc20_transferFrom self user self usdcAmount (usdcToken s)) (\<lambda>t.
           Inr (True, s\<lparr>usdcToken := t\<rparr>))
       else Inr (False, s)))"

definition chargeInOKB :: "address \<Rightarrow> address \<Rightarrow> nat \<Rightarrow> sponsor \<Rightarrow> error + sponsor" where
  "chargeInOKB self user gasAmount s =
     and_then (mul256 gasAmount (okbToGasRate (pm s))) (\<lambda>x.
     and_then (div256 x (10 ^ 18)) (\<lambda>okbAmount.
       if \<not> balanceOf (okbToken s) user \<ge> okbAmount
         then Inl (Revert ''Paymaster: insufficient balance for gas payment'')
       else and_then (erc20_transferFrom self user self okbAmount (okbToken s)) (\<lambda>t.
         Inr (s\<lparr>okbToken := t\<rparr>))))"

text \<open>\<open>postOp\<close>, with the context already decoded into its three components.\<close>

definition postOp ::
  "address \<Rightarrow> nat \<Rightarrow> address \<times> nat \<times> nat \<Rightarrow> nat \<Rightarrow> sponsor \<Rightarrow> error + sponsor" where
  "postOp self now context actualGasCost s =
     (case context of (sender, maxCost, userOpHash) \<Rightarrow>
      if paymaster_paused (pm s) then Inl EnforcedPause
      else and_then (updateGasUsage now sender actualGasCost (pm s)) (\<lambda>p1.
        and_then (chargeInUSDC self sender actualGasCost (s\<lparr>pm := p1\<rparr>)) (\<lambda>(charged, s1).
        and_then (if \<not> charged then chargeInOKB self sender actualGasCost s1 else Inr s1) (\<lambda>s2.
        and_then (sub256 (gasReserve (pm s2)) actualGasCost) (\<lambda>g.
          Inr (s2\<lparr>pm := (pm s2)\<lparr>gasReserve := g\<rparr>\<rparr>))))))"


section \<open>Observations and invariants\<close>

text \<open>What a call returned and which events it emitted (nothing, when it reverted).\<close>

definition returned :: "error + 'a \<times> 's \<Rightarrow> 'a option" where
  "returned r = (case r of Inl e \<Rightarrow> None | Inr (x, s) \<Rightarrow> Some x)"

definition emitted :: "error + 'a \<times> world \<Rightarrow> event list" where
  "emitted r = (case r of Inl e \<Rightarrow> [] | Inr (x, w) \<Rightarrow> events w)"

text \<open>
  The ledger invariant: the vault is solvent and has approved no spender of its USDC
  (the vault's code never calls \<open>approve\<close>, so no one can pull from its custody).
\<close>

definition ledger_inv :: "deployment \<Rightarrow> world \<Rightarrow> bool" where
  "ledger_inv d w =
     (isVaultSolvent d w \<and> (\<forall>x. allowances (usdc d w) (vault_addr d) x = 0))"

text \<open>
  The rejection condition of \<open>pushPrice\<close> in the specification's words: a non-positive
  price, a price outside the bounds, an update before the interval has elapsed, or,
  after the first update, a relative change above \<open>MAX_PRICE_CHANGE\<close> (a fraction of
  \<open>100e8\<close>).
\<close>

definition pushPrice_rejects :: "nat \<Rightarrow> int \<Rightarrow> oracle_adapter \<Rightarrow> bool" where
  "pushPrice_rejects now newPrice s =
     (newPrice \<le> 0 \<or> newPrice < MIN_PRICE \<or> MAX_PRICE < newPrice
      \<or> now < lastUpdated s + MIN_UPDATE_INTERVAL
      \<or> (updateCount s > 0
          \<and> \<bar>newPrice - latestPrice s\<bar> * 10000000000 > latestPrice s * MAX_PRICE_CHANGE))"

section \<open>Example deployment\<close>

text \<open>
  A small deployment on which the theorems below are instantiated: USDC at 10, the vault
  at 11, the engine at 12, the router at 13, the account contract at 20, a second
  whitelisted token at 30, the aggregator at 40. User 1 has deposited 300 USDC; the
  oracle holds its initial price of 150.00.
\<close>

definition dep0 :: deployment where
  "dep0 = \<lparr>usdc_addr = 10, vault_addr = 11, stock_addr = 12, router_addr = 13\<rparr>"

definition erc20_empty :: erc20 where
  "erc20_empty = \<lparr>balances = (\<lambda>_. 0), allowances = (\<lambda>_ _. 0), totalSupply = 0\<rparr>"

definition world0 :: world where
  "world0 =
     \<lparr>tokens = (\<lambda>_. erc20_empty)
        (10 := \<lparr>balances = (\<lambda>_. 0)(11 := 300000000, 20 := 1000),
                allowances = (\<lambda>_ _. 0)(20 := (\<lambda>_. 0)(13 := 1000)),
                totalSupply = 300001000\<rparr>,
         30 := \<lparr>balances = (\<lambda>_. 0)(20 := 1000),
                allowances = (\<lambda>_ _. 0)(20 := (\<lambda>_. 0)(13 := 1000)),
                totalSupply = 1000\<rparr>),
      aaplToken = \<lparr>aapl_erc20 = erc20_empty, aapl_minters = {12}, aapl_burners = {12},
                   aapl_paused = False\<rparr>,
      collateralVault = \<lparr>userCollateral = (\<lambda>_. 0)(1 := 300000000),
                   totalCollateral = 300000000, vault_stock_role = {12, 13},
                   vault_pauser_role = {99}, vault_paused = False\<rparr>,
      oracleAdapter = \<lparr>latestPrice = 15000000000, lastUpdated = 1000, updateCount = 0,
                   oracle_operators = {98}\<rparr>,
      syntheticStock = \<lparr>mintFee = 25, redeemFee = 25, userAaplBalance = (\<lambda>_. 0),
                   stock_aa_role = {20}, stock_paused = False\<rparr>,
      dexRouter = \<lparr>routerFee = 10, allowedTokens = (\<lambda>_. False)(10 := True, 30 := True),
                   okxDEXAggregator = 40, router_aa_role = {20}, router_paused = False\<rparr>,
      events = []\<rparr>"

definition ops0 :: "ledger_op list" where
  "ops0 = [Mint 20 1000 1 (10 ^ 18), Redeem 20 1200 1 500000000000000000,
           WithdrawCollateral 12 1 1000 7, VaultPause 99, EmergencyWithdraw 1]"

text \<open>An aggregator that pays the router 5 units of USDC or of token 30, as instructed.\<close>

definition credit :: "address \<Rightarrow> address \<Rightarrow> nat \<Rightarrow> world \<Rightarrow> world" where
  "credit tok a n w =
     set_token tok ((tokens w tok)\<lparr>balances :=
       (balances (tokens w tok))(a := balances (tokens w tok) a + n)\<rparr>) w"

definition agg0 :: aggregator where
  "agg0 a data w =
     (if a = 40 \<and> data = [1] then Some (credit 10 13 5 w)
      else if a = 40 \<and> data = [2] then Some (credit 30 13 5 w)
      else None)"

text \<open>An account with owner 1 and guardians 2, 3 and 4, as its constructor leaves it.\<close>

definition account0 :: smart_account where
  "account0 = \<lparr>owner = 1, guardians = [2, 3, 4], admin_role = {1}, guardian_role = {2, 3, 4},
               session_key_role = {}, sessionKeyExpiry = (\<lambda>_. 0),
               activeRecovery = \<lparr>newOwner = 0, confirmations = 0, confirmed = (\<lambda>_. False),
                                 deadline = 0\<rparr>,
               account_paused = False\<rparr>"

text \<open>
  Guardian 2 proposes, the owner cancels, guardian 3 proposes again: the state in which
  guardian 2 is asked to be the second confirmer.
\<close>

definition account_reproposed :: smart_account where
  "account_reproposed =
     run_account [InitiateRecovery 2 100 9, CancelRecovery 1, InitiateRecovery 3 200 8] account0"

text \<open>A callee that counts the calls to address 50 and reverts everywhere else.\<close>

definition callee0 :: "nat callee" where
  "callee0 target v data s =
     (if target = 50 then Inr ([1], (fst s, snd s + 1)) else Inl [0])"

text \<open>
  A paymaster as constructed (no gas deposited yet), its constructor's result funded with
  one ether of reserve, and an account 7 that has used its whole allowance in hour 1.
\<close>

definition sponsor0 :: sponsor where
  "sponsor0 =
     \<lparr>pm = \<lparr>usdcToGasRate = 1000, okbToGasRate = 500,
             userGasUsed = (\<lambda>_. 0)(7 := 10000000000000000),
             lastResetTime = (\<lambda>_. 0)(7 := 3600), gasReserve = 0,
             minimumGasReserve = 100000000000000000, paymaster_paused = False\<rparr>,
      usdcToken = \<lparr>balances = (\<lambda>_. 0)(7 := 1000000), allowances = (\<lambda>_ _. 0),
                    totalSupply = 1000000\<rparr>,
      okbToken = erc20_empty\<rparr>"

definition sponsor_funded :: sponsor where
  "sponsor_funded = sponsor0\<lparr>pm := (pm sponsor0)\<lparr>gasReserve := 1000000000000000000\<rparr>\<rparr>"

definition userOp0 :: bytes where
  "userOp0 = [1, 2, 3, 4, 0, 0, 0, 0, 0, 0, 0, 0, 0, 0, 0, 0, 0, 0, 0, 0, 0, 0, 0, 7]"


section \<open>Basic facts\<close>

lemma and_then_simps [simp]: "and_then (Inl e) f = Inl e" "and_then (Inr x) f = f x"
  by (simp_all add: and_then_def)

lemma and_then_Inr: "and_then r f = Inr y \<longleftrightarrow> (\<exists>x. r = Inr x \<and> f x = Inr y)"
  by (cases r) simp_all

lemmas world0_eval = dep0_def world0_def erc20_empty_def usdc_def set_usdc_def set_token_def
  balanceOf_def getUserCollateral_def getTotalCollateral_def getVaultBalance_def
  isVaultSolvent_def MAX_UINT256_def MAX_PRICE_AGE_def

lemmas mint_eval = mint_def getPrice_def add256_def sub256_def mul256_def div256_def
  collateralFor_def COLLATERAL_RATIO_def AAPL_DECIMALS_def PRICE_DECIMALS_def USDC_DECIMALS_def
  withdrawCollateral_def erc20_transfer_def aapl_mint_def erc20_mint_def Let_def

section \<open>Solvency of the vault\<close>

lemma transfer_out:
  assumes "erc20_transfer from to v t = Inr t'"
  shows "allowances t' = allowances t"
    and "balances t' from + v \<ge> balances t from"
  using assms by (auto simp: erc20_transfer_def Let_def split: if_splits)

lemma transferFrom_into:
  assumes "erc20_transferFrom spender from to v t = Inr t'"
    and "\<forall>x. allowances t to x = 0" and "v > 0"
  shows "(\<forall>x. allowances t' to x = 0) \<and> balances t' to = balances t to + v"
  using assms
  by (auto simp: erc20_transferFrom_def erc20_transfer_def erc20_approve_def Let_def
        and_then_Inr MAX_UINT256_def split: if_splits)

lemma deposit_inv:
  assumes "ledger_inv d w" and "depositCollateral d sender user amount w = Inr (u, w')"
  shows "ledger_inv d w'"
proof -
  let ?v = "collateralVault w"
  from assms(2) obtain t uc tc where
    pos: "amount > 0" and
    tf: "erc20_transferFrom (vault_addr d) sender (vault_addr d) amount (usdc d w) = Inr t" and
    tc: "add256 (totalCollateral ?v) amount = Inr tc" and
    w': "w' = (set_usdc d t w)\<lparr>collateralVault :=
           ?v\<lparr>userCollateral := (userCollateral ?v)(user := uc), totalCollateral := tc\<rparr>\<rparr>"
    by (auto simp: depositCollateral_def Let_def and_then_Inr split: if_splits)
  from assms(1) have z: "\<forall>x. allowances (usdc d w) (vault_addr d) x = 0"
    by (simp add: ledger_inv_def)
  from transferFrom_into[OF tf z pos] tc assms(1) show ?thesis
    by (auto simp: ledger_inv_def isVaultSolvent_def w' usdc_def set_usdc_def balanceOf_def
          add256_def split: if_splits)
qed

lemma withdraw_inv:
  assumes "ledger_inv d w"
    and "withdrawCollateral d sender user amount recipient w = Inr (u, w')"
  shows "ledger_inv d w'"
proof -
  let ?v = "collateralVault w"
  from assms(2) obtain t uc tc where
    tf: "erc20_transfer (vault_addr d) recipient amount (usdc d w) = Inr t" and
    tc: "sub256 (totalCollateral ?v) amount = Inr tc" and
    w': "w' = (set_usdc d t w)\<lparr>collateralVault :=
           ?v\<lparr>userCollateral := (userCollateral ?v)(user := uc), totalCollateral := tc\<rparr>\<rparr>"
    by (auto simp: withdrawCollateral_def Let_def and_then_Inr split: if_splits)
  from transfer_out[OF tf] tc assms(1) show ?thesis
    by (auto simp: ledger_inv_def isVaultSolvent_def w' usdc_def set_usdc_def balanceOf_def
          sub256_def split: if_splits)
qed

lemma emergency_inv:
  assumes "ledger_inv d w" and "emergencyWithdraw d sender w = Inr (u, w')"
  shows "ledger_inv d w'"
proof -
  let ?v = "collateralVault w"
  from assms(2) obtain t tc where
    tf: "erc20_transfer (vault_addr d) sender (userCollateral ?v sender) (usdc d w) = Inr t" and
    tc: "sub256 (totalCollateral ?v) (userCollateral ?v sender) = Inr tc" and
    w': "w' = (set_usdc d t w)\<lparr>collateralVault :=
           ?v\<lparr>userCollateral := (userCollateral ?v)(sender := 0), totalCollateral := tc\<rparr>\<rparr>"
    by (auto simp: emergencyWithdraw_def Let_def and_then_Inr split: if_splits)
  from transfer_out[OF tf] tc assms(1) show ?thesis
    by (auto simp: ledger_inv_def isVaultSolvent_def w' usdc_def set_usdc_def balanceOf_def
          sub256_def split: if_splits)
qed

lemma mint_inv:
  assumes "ledger_inv d w" and "mint d sender now user aaplAmount w = Inr (c, w')"
  shows "ledger_inv d w'"
proof -
  from assms(2) obtain cu u w1 tk s' ev where
    wd: "withdrawCollateral d (stock_addr d) user cu (stock_addr d) w = Inr (u, w1)" and
    w': "w' = w1\<lparr>aaplToken := tk, syntheticStock := s', events := ev\<rparr>"
    by (auto simp: mint_def Let_def and_then_Inr split: if_splits prod.splits)
  from withdraw_inv[OF assms(1) wd] show ?thesis
    by (simp add: ledger_inv_def isVaultSolvent_def w' usdc_def)
qed

lemma redeem_inv:
  assumes "vault_addr d \<noteq> stock_addr d" and "ledger_inv d w"
    and "redeem d sender now user aaplAmount w = Inr (c, w')"
  shows "ledger_inv d w'"
proof -
  from assms(3) obtain nr t tk s' u w1 ev where
    ap: "erc20_approve (stock_addr d) (vault_addr d) nr (usdc d w) = Inr t" and
    dp: "depositCollateral d (stock_addr d) user nr
           ((set_usdc d t w)\<lparr>aaplToken := tk, syntheticStock := s'\<rparr>) = Inr (u, w1)" and
    w': "w' = w1\<lparr>events := ev\<rparr>"
    by (auto simp: redeem_def Let_def and_then_Inr split: if_splits prod.splits)
  from ap assms(1,2)
  have "ledger_inv d ((set_usdc d t w)\<lparr>aaplToken := tk, syntheticStock := s'\<rparr>)"
    by (auto simp: ledger_inv_def isVaultSolvent_def usdc_def set_usdc_def balanceOf_def
          erc20_approve_def split: if_splits)
  from deposit_inv[OF this dp] show ?thesis
    by (simp add: ledger_inv_def isVaultSolvent_def w' usdc_def)
qed

lemma pause_inv:
  "ledger_inv d w \<Longrightarrow> ledger_inv d (commit w (vault_pause sender w))"
  "ledger_inv d w \<Longrightarrow> ledger_inv d (commit w (vault_unpause sender w))"
  by (auto simp: commit_def vault_pause_def vault_unpause_def Let_def ledger_inv_def
        isVaultSolvent_def usdc_def)

lemma commit_inv:
  assumes "ledger_inv d w" and "\<And>x w'. r = Inr (x, w') \<Longrightarrow> ledger_inv d w'"
  shows "ledger_inv d (commit w r)"
  using assms by (cases r) (auto simp: commit_def)

lemma apply_op_inv:
  assumes "vault_addr d \<noteq> stock_addr d" and "ledger_inv d w"
  shows "ledger_inv d (apply_op d op w)"
proof (cases op)
  case (Redeem a n u x)
  then show ?thesis using assms by (auto intro!: commit_inv elim: redeem_inv[rotated 2])
qed (use assms in \<open>auto intro!: commit_inv pause_inv
       elim: deposit_inv[rotated] withdraw_inv[rotated] emergency_inv[rotated] mint_inv[rotated]\<close>)

lemma run_ops_inv:
  assumes "vault_addr d \<noteq> stock_addr d"
  shows "ledger_inv d w \<Longrightarrow> ledger_inv d (run_ops d ops w)"
  by (induction ops arbitrary: w) (auto intro: apply_op_inv[OF assms])

lemma vault_constructor_solvent:
  "vault_constructor tok admin = Inr v \<Longrightarrow> isVaultSolvent d (w\<lparr>collateralVault := v\<rparr>)"
  by (auto simp: vault_constructor_def isVaultSolvent_def split: if_splits)

text \<open>
  Claim C1. From any state in which the vault is solvent and has approved no spender of
  its USDC (as after deployment: the constructor sets the tracked total to zero and the
  vault never approves), with the vault and the engine deployed at different addresses,
  every finite sequence of \<open>depositCollateral\<close>, \<open>withdrawCollateral\<close>,
  \<open>emergencyWithdraw\<close>, \<open>mint\<close> and \<open>redeem\<close> transactions (and of the vault's
  \<open>pause\<close>/\<open>unpause\<close>), by any senders with any arguments, leaves after each of its
  prefixes \<open>getTotalCollateral()\<close> at most the USDC balance the vault holds, so
  \<open>isVaultSolvent()\<close> returns true at every observation point.
\<close>

theorem vault_solvency_invariant:
  assumes "vault_addr d \<noteq> stock_addr d"
    and "isVaultSolvent d w"
    and "\<forall>x. allowances (usdc d w) (vault_addr d) x = 0"
  shows "isVaultSolvent d (run_ops d (take k ops) w)
    \<and> getTotalCollateral (run_ops d (take k ops) w) \<le> getVaultBalance d (run_ops d (take k ops) w)"
proof -
  from assms(2,3) have "ledger_inv d w" by (simp add: ledger_inv_def)
  from run_ops_inv[OF assms(1) this, of "take k ops"] show ?thesis
    by (simp add: ledger_inv_def isVaultSolvent_def getTotalCollateral_def getVaultBalance_def)
qed

theorem vault_solvency_invariant_witness:
  "vault_addr dep0 \<noteq> stock_addr dep0 \<and> isVaultSolvent dep0 world0
   \<and> (\<forall>x. allowances (usdc dep0 world0) (vault_addr dep0) x = 0)
   \<and> isVaultSolvent dep0 (run_ops dep0 (take 3 ops0) world0)
   \<and> getTotalCollateral (run_ops dep0 (take 3 ops0) world0)
       \<le> getVaultBalance dep0 (run_ops dep0 (take 3 ops0) world0)"
  using vault_solvency_invariant [of dep0 world0 3 ops0]
  by (simp add: dep0_def world0_def usdc_def isVaultSolvent_def balanceOf_def)


section \<open>The mint arithmetic\<close>

lemma collateralFor_value:
  assumes "aaplAmount * aaplPrice * 150 \<le> MAX_UINT256"
  shows "collateralFor aaplAmount aaplPrice = Inr (aaplAmount * aaplPrice * 150 div 10 ^ 22)"
proof -
  have "aaplAmount * aaplPrice \<le> aaplAmount * aaplPrice * 150" by simp
  with assms have "aaplAmount * aaplPrice \<le> MAX_UINT256" by linarith
  with assms show ?thesis
    by (simp add: collateralFor_def mul256_def div256_def COLLATERAL_RATIO_def
        AAPL_DECIMALS_def PRICE_DECIMALS_def USDC_DECIMALS_def)
qed

lemma collateralFor_1e18: "collateralFor (10 ^ 18) 15000000000 = Inr 225000000"
  by (simp add: collateralFor_def mul256_def div256_def COLLATERAL_RATIO_def MAX_UINT256_def
        AAPL_DECIMALS_def PRICE_DECIMALS_def USDC_DECIMALS_def)

lemma mint_fee_1e18:
  "mul256 (10 ^ 18) 25 = Inr 25000000000000000000"
  "div256 25000000000000000000 10000 = Inr 2500000000000000"
  "sub256 (10 ^ 18) 2500000000000000 = Inr 997500000000000000"
  by (simp_all add: mul256_def div256_def sub256_def MAX_UINT256_def)

text \<open>
  Claim C2, as amended. With the oracle at price \<open>1.5e10\<close> and fresh,
  \<open>COLLATERAL_RATIO = 150\<close> and \<open>mintFee = 25\<close> basis points, a call
  \<open>mint(user, 1e18)\<close> that the engine, the vault and the token admit (role, pause
  switches, at least 225,000,000 units of collateral recorded and held) returns
  \<open>225000000\<close> collateral consumed, mints \<open>netMinted = 997500000000000000\<close>
  (0.9975e18) to the user and to the user's position, and emits \<open>Minted\<close> with a fee
  of \<open>2500000000000000\<close>, that is 2.5e15 (0.0025 unit), not 2.5e14.
\<close>

theorem mint_worked_scenario:
  assumes "sender \<in> stock_aa_role (syntheticStock w)" and "\<not> stock_paused (syntheticStock w)"
    and "user \<noteq> 0"
    and "latestPrice (oracleAdapter w) = 15000000000"
    and "0 < lastUpdated (oracleAdapter w)"
    and "now \<le> lastUpdated (oracleAdapter w) + MAX_PRICE_AGE"
    and "lastUpdated (oracleAdapter w) + MAX_PRICE_AGE \<le> MAX_UINT256"
    and "mintFee (syntheticStock w) = 25"
    and "225000000 \<le> userCollateral (collateralVault w) user"
    and "225000000 \<le> totalCollateral (collateralVault w)"
    and "225000000 \<le> balanceOf (usdc d w) (vault_addr d)"
    and "stock_addr d \<in> vault_stock_role (collateralVault w)"
    and "\<not> vault_paused (collateralVault w)"
    and "stock_addr d \<noteq> 0" and "vault_addr d \<noteq> 0"
    and "stock_addr d \<in> aapl_minters (aaplToken w)" and "\<not> aapl_paused (aaplToken w)"
    and "totalSupply (aapl_erc20 (aaplToken w)) + 997500000000000000 \<le> MAX_UINT256"
    and "userAaplBalance (syntheticStock w) user + 997500000000000000 \<le> MAX_UINT256"
  shows "\<exists>w'. mint d sender now user (10 ^ 18) w = Inr (225000000, w')
      \<and> events w' = events w @
           [Minted user 225000000 997500000000000000 15000000000 2500000000000000]
      \<and> balanceOf (aapl_erc20 (aaplToken w')) user
           = balanceOf (aapl_erc20 (aaplToken w)) user + 997500000000000000
      \<and> userAaplBalance (syntheticStock w') user
           = userAaplBalance (syntheticStock w) user + 997500000000000000
      \<and> getUserCollateral w' user = getUserCollateral w user - 225000000
      \<and> getTotalCollateral w' = getTotalCollateral w - 225000000"
proof -
  have p: "getPrice now (oracleAdapter w) = Inr (15000000000, lastUpdated (oracleAdapter w))"
    using assms(4-7) by (simp add: getPrice_def add256_def)
  obtain w1 where
    wd: "withdrawCollateral d (stock_addr d) user 225000000 (stock_addr d) w = Inr ((), w1)"
    and w1: "aaplToken w1 = aaplToken w" "events w1 = events w"
      "userCollateral (collateralVault w1) user
         = userCollateral (collateralVault w) user - 225000000"
      "totalCollateral (collateralVault w1) = totalCollateral (collateralVault w) - 225000000"
    using assms(3,9-15)
    by (simp add: withdrawCollateral_def Let_def sub256_def erc20_transfer_def balanceOf_def
          set_usdc_def)
  obtain tk where
    mt: "aapl_mint (stock_addr d) user 997500000000000000 (aaplToken w) = Inr tk"
    and tk: "balanceOf (aapl_erc20 tk) user
               = balanceOf (aapl_erc20 (aaplToken w)) user + 997500000000000000"
    using assms(3,16-18)
    by (simp add: aapl_mint_def erc20_mint_def add256_def balanceOf_def)
  show ?thesis
    using assms(1-3,8,9,19) p wd w1 mt tk collateralFor_1e18 mint_fee_1e18
    by (simp add: mint_def Let_def add256_def getUserCollateral_def getTotalCollateral_def)
qed

theorem mint_worked_scenario_witness:
  "20 \<in> stock_aa_role (syntheticStock world0) \<and> \<not> stock_paused (syntheticStock world0)
   \<and> latestPrice (oracleAdapter world0) = 15000000000
   \<and> 0 < lastUpdated (oracleAdapter world0)
   \<and> 1000 \<le> lastUpdated (oracleAdapter world0) + MAX_PRICE_AGE
   \<and> mintFee (syntheticStock world0) = 25
   \<and> 225000000 \<le> userCollateral (collateralVault world0) 1
   \<and> 225000000 \<le> totalCollateral (collateralVault world0)
   \<and> 225000000 \<le> balanceOf (usdc dep0 world0) (vault_addr dep0)
   \<and> stock_addr dep0 \<in> vault_stock_role (collateralVault world0)
   \<and> \<not> vault_paused (collateralVault world0)
   \<and> stock_addr dep0 \<in> aapl_minters (aaplToken world0) \<and> \<not> aapl_paused (aaplToken world0)
   \<and> (\<exists>w'. mint dep0 20 1000 1 (10 ^ 18) world0 = Inr (225000000, w')
      \<and> events w' = [Minted 1 225000000 997500000000000000 15000000000 2500000000000000]
      \<and> balanceOf (aapl_erc20 (aaplToken w')) 1 = 997500000000000000
      \<and> userAaplBalance (syntheticStock w') 1 = 997500000000000000
      \<and> getUserCollateral w' 1 = 75000000
      \<and> getTotalCollateral w' = 75000000)"
  using mint_worked_scenario [of 20 world0 1 1000 dep0]
  by (simp add: world0_eval)

text \<open>
  The claim as stated fails on its own scenario: the fee the call computes and emits is
  \<open>2500000000000000\<close>, ten times the \<open>250000000000000\<close> (2.5e14) the claim gives.
\<close>

theorem mint_fee_counterexample:
  "emitted (mint dep0 20 1000 1 (10 ^ 18) world0)
     = [Minted 1 225000000 997500000000000000 15000000000 2500000000000000]
   \<and> emitted (mint dep0 20 1000 1 (10 ^ 18) world0)
     \<noteq> [Minted 1 225000000 997500000000000000 15000000000 250000000000000]"
  by (simp add: emitted_def mint_eval world0_eval)

lemma div_double:
  fixes x D :: nat
  assumes "D > 0"
  shows "(2 * x) div D = 2 * (x div D) + (if D \<le> 2 * (x mod D) then 1 else 0)"
proof -
  have "2 * x = 2 * (x div D) * D + 2 * (x mod D)"
    by (metis distrib_left div_mult_mod_eq mult.assoc mult.commute)
  then have split: "(2 * x) div D = 2 * (x div D) + (2 * (x mod D)) div D"
    using assms by (metis div_mult_self3 less_numeral_extra(3))
  have carry: "(2 * (x mod D)) div D = (if D \<le> 2 * (x mod D) then 1 else 0)"
  proof (cases "D \<le> 2 * (x mod D)")
    case True
    have "x mod D < D" using assms by simp
    then have "2 * (x mod D) < 2 * D" by simp
    with True have "(2 * (x mod D)) div D = 1"
      by (metis One_nat_def div_nat_eqI mult.commute mult.right_neutral numeral_2_eq_2 mult_2)
    with True show ?thesis by simp
  next
    case False
    then show ?thesis by simp
  qed
  show ?thesis using split carry by simp
qed

text \<open>
  Claim C3, as amended. With \<open>RATIO\<close> fixed and the doubled product
  \<open>2 * a * p * RATIO\<close> within 256 bits, the requirement for \<open>2a\<close> at price \<open>p\<close> and
  the requirement for \<open>a\<close> at price \<open>2p\<close> both equal twice the requirement for \<open>a\<close> at
  \<open>p\<close> plus a carry of 0 or 1 from the integer division: the carry is 1 exactly when the
  remainder of \<open>a * p * RATIO\<close> modulo \<open>10^22\<close> is at least half of \<open>10^22\<close>. Doubling is
  exact on every input whose product is a multiple of \<open>10^22\<close>.
\<close>

theorem mint_collateral_doubling:
  assumes "2 * aaplAmount * aaplPrice * COLLATERAL_RATIO \<le> MAX_UINT256"
  shows "\<exists>r. collateralFor aaplAmount aaplPrice = Inr r
      \<and> collateralFor (2 * aaplAmount) aaplPrice
          = Inr (2 * r + (if 10 ^ 22 \<le> 2 * (aaplAmount * aaplPrice * COLLATERAL_RATIO mod 10 ^ 22)
                         then 1 else 0))
      \<and> collateralFor aaplAmount (2 * aaplPrice)
          = Inr (2 * r + (if 10 ^ 22 \<le> 2 * (aaplAmount * aaplPrice * COLLATERAL_RATIO mod 10 ^ 22)
                         then 1 else 0))"
proof -
  let ?x = "aaplAmount * aaplPrice * 150"
  from assms have b2: "2 * ?x \<le> MAX_UINT256" by (simp add: COLLATERAL_RATIO_def mult.assoc)
  then have b1: "?x \<le> MAX_UINT256" by linarith
  have e1: "2 * aaplAmount * aaplPrice * 150 = 2 * ?x" by simp
  have e2: "aaplAmount * (2 * aaplPrice) * 150 = 2 * ?x" by simp
  have c1: "collateralFor aaplAmount aaplPrice = Inr (?x div 10 ^ 22)"
    by (rule collateralFor_value[OF b1])
  have c2: "collateralFor (2 * aaplAmount) aaplPrice = Inr (2 * ?x div 10 ^ 22)"
    using collateralFor_value[of "2 * aaplAmount" aaplPrice] b2 e1 by simp
  have c3: "collateralFor aaplAmount (2 * aaplPrice) = Inr (2 * ?x div 10 ^ 22)"
    using collateralFor_value[of aaplAmount "2 * aaplPrice"] b2 e2 by simp
  have dd: "(2 * ?x) div 10 ^ 22
      = 2 * (?x div 10 ^ 22) + (if (10::nat) ^ 22 \<le> 2 * (?x mod 10 ^ 22) then 1 else 0)"
    by (rule div_double) simp
  show ?thesis unfolding c1 c2 c3 COLLATERAL_RATIO_def using dd by simp
qed

theorem mint_collateral_doubling_witness:
  "2 * 7000000000 * 15000000000 * COLLATERAL_RATIO \<le> MAX_UINT256
   \<and> (\<exists>r. collateralFor 7000000000 15000000000 = Inr r
      \<and> collateralFor (2 * 7000000000) 15000000000 = Inr (2 * r + 1)
      \<and> collateralFor 7000000000 (2 * 15000000000) = Inr (2 * r + 1))"
  using mint_collateral_doubling [of 7000000000 15000000000]
  by (simp add: COLLATERAL_RATIO_def MAX_UINT256_def)

text \<open>
  The claim as stated fails: at \<open>a = 7e9\<close> and \<open>p = 1.5e10\<close> the requirement is 1, and
  the requirement for \<open>2a\<close> at \<open>p\<close> and for \<open>a\<close> at \<open>2p\<close> is 3, not 2.
\<close>

theorem mint_linearity_counterexample:
  "collateralFor 7000000000 15000000000 = Inr 1
   \<and> collateralFor (2 * 7000000000) 15000000000 = Inr 3
   \<and> collateralFor 7000000000 (2 * 15000000000) = Inr 3
   \<and> (3::nat) \<noteq> 2 * 1"
  by (simp add: collateralFor_def mul256_def div256_def COLLATERAL_RATIO_def MAX_UINT256_def
        AAPL_DECIMALS_def PRICE_DECIMALS_def USDC_DECIMALS_def)

text \<open>
  Claim C10. A \<open>mint(user, aaplAmount)\<close> call that passes the role and pause checks for a
  non-zero user, with a fresh positive oracle price, \<open>aaplAmount > 0\<close> and
  \<open>aaplAmount * price * 150 < 100 * 10^20\<close>, reverts with
  \<open>SyntheticStock: insufficient mint amount\<close>, whatever the vault records or holds for
  the user: below that price-dependent threshold nothing can be minted.
\<close>

theorem mint_dust_rejected:
  assumes "sender \<in> stock_aa_role (syntheticStock w)" and "\<not> stock_paused (syntheticStock w)"
    and "user \<noteq> 0" and "getPrice now (oracleAdapter w) = Inr (price, t)" and "price > 0"
    and "aaplAmount > 0" and "aaplAmount * nat price * 150 < 100 * 10 ^ 20"
  shows "mint d sender now user aaplAmount w
       = Inl (Revert ''SyntheticStock: insufficient mint amount'')"
proof -
  have "aaplAmount * nat price * 150 \<le> MAX_UINT256"
    using assms(7) by (simp add: MAX_UINT256_def)
  from collateralFor_value[OF this] assms(7)
  have "collateralFor aaplAmount (nat price) = Inr 0" by simp
  with assms show ?thesis by (simp add: mint_def Let_def)
qed

theorem mint_dust_rejected_witness:
  "20 \<in> stock_aa_role (syntheticStock world0) \<and> \<not> stock_paused (syntheticStock world0)
   \<and> getPrice 1000 (oracleAdapter world0) = Inr (15000000000, 1000)
   \<and> (4444444444::nat) * nat 15000000000 * 150 < 100 * 10 ^ 20
   \<and> 300000000 \<le> getUserCollateral world0 1
   \<and> mint dep0 20 1000 1 4444444444 world0
       = Inl (Revert ''SyntheticStock: insufficient mint amount'')"
  using mint_dust_rejected [of 20 world0 1 1000 15000000000 1000 4444444444 dep0]
  by (simp add: world0_eval getPrice_def add256_def)


section \<open>Guardian recovery\<close>

lemmas recovery_eval = account0_def account_reproposed_def keep_def initiateRecovery_def
  cancelRecovery_def confirmRecovery_def delete_recovery_def add256_def RECOVERY_PERIOD_def
  GUARDIAN_THRESHOLD_def MAX_UINT256_def Let_def

lemma account0_constructed: "account_constructor 1 [2, 3, 4] 13 12 14 = Inr account0"
  by (simp add: account_constructor_def account0_def)

text \<open>
  On an account whose guardians have never confirmed anything, the threshold works as
  designed: the proposal alone leaves the owner, and the confirmation of a second,
  distinct guardian before the deadline installs the new owner and clears the proposal.
\<close>

lemma first_recovery_two_of_three:
  assumes "initiateRecovery g1 t0 n a = Inr a1" and "g2 \<in> guardian_role a"
    and "\<not> confirmed (activeRecovery a) g2" and "g2 \<noteq> g1"
    and "now < deadline (activeRecovery a1)"
  shows "owner a1 = owner a
    \<and> (\<exists>a2. confirmRecovery g2 now a1 = Inr a2 \<and> owner a2 = n
          \<and> deadline (activeRecovery a2) = 0 \<and> newOwner (activeRecovery a2) = 0
          \<and> confirmations (activeRecovery a2) = 0)"
  using assms
  by (auto simp: initiateRecovery_def confirmRecovery_def Let_def and_then_Inr add256_def
        MAX_UINT256_def GUARDIAN_THRESHOLD_def delete_recovery_def RECOVERY_PERIOD_def
        split: if_splits)

text \<open>
  Claim C4, at its failing input. On the account built with owner 1 and guardians 2, 3
  and 4: guardian 2 proposes at time 100, the owner cancels, guardian 3 proposes new owner
  8 at time 200. The proposal is open with exactly one confirmation and deadline 259400.
  At time 300 guardian 2, a second and distinct guardian, calls \<open>confirmRecovery\<close>: the
  call reverts with \<open>SmartAccount: already confirmed\<close> and the owner stays 1, because
  \<open>delete activeRecovery\<close> left guardian 2's flag from the cancelled proposal set.
\<close>

theorem second_guardian_blocked_after_cancel:
  "newOwner (activeRecovery account_reproposed) = 8
   \<and> confirmations (activeRecovery account_reproposed) = 1
   \<and> deadline (activeRecovery account_reproposed) = 259400
   \<and> owner account_reproposed = 1
   \<and> 2 \<in> guardian_role account_reproposed
   \<and> confirmRecovery 2 300 account_reproposed
       = Inl (Revert ''SmartAccount: already confirmed'')
   \<and> owner (account_step (ConfirmRecovery 2 300) account_reproposed) = 1"
  by (simp add: recovery_eval)

lemma step_confirmed:
  "confirmed (activeRecovery a) g \<Longrightarrow> confirmed (activeRecovery (account_step op a)) g"
  by (cases op)
     (auto simp: keep_def initiateRecovery_def confirmRecovery_def cancelRecovery_def
        grantSessionKey_def revokeSessionKey_def account_pause_def account_unpause_def
        grantRole_def revokeRole_def renounceRole_def set_role_members_def delete_recovery_def
        Let_def and_then_def split: sum.splits if_splits role.splits)

lemma run_confirmed:
  "confirmed (activeRecovery a) g \<Longrightarrow> confirmed (activeRecovery (run_account ops a)) g"
  by (induction ops arbitrary: a) (auto intro: step_confirmed)

lemma initiate_sets_flag:
  "initiateRecovery g t n a = Inr a' \<Longrightarrow> confirmed (activeRecovery a') g"
  by (auto simp: initiateRecovery_def Let_def and_then_Inr split: if_splits)

lemma confirm_sets_flag:
  "confirmRecovery g t a = Inr a' \<Longrightarrow> confirmed (activeRecovery a') g"
  by (auto simp: confirmRecovery_def Let_def and_then_Inr delete_recovery_def split: if_splits)

text \<open>
  Claim C9. Once a guardian \<open>g\<close> has confirmed a proposal, by opening it or by
  confirming it, the flag \<open>confirmed[g]\<close> survives every later transaction of the
  account: execution, cancellation, new proposals, session keys, pausing and role
  changes. Whatever happens afterwards, no \<open>confirmRecovery\<close> call by \<open>g\<close> ever
  succeeds again, and on any later proposal that is open (a deadline set and not yet
  passed), while \<open>g\<close> holds the guardian role, the call reverts with
  \<open>SmartAccount: already confirmed\<close>.
\<close>

theorem stale_confirmation_excludes_guardian:
  assumes "initiateRecovery g t0 n a0 = Inr a1 \<or> confirmRecovery g t0 a0 = Inr a1"
  shows "(\<forall>t. isl (confirmRecovery g t (run_account ops a1)))
    \<and> (g \<in> guardian_role (run_account ops a1)
        \<and> deadline (activeRecovery (run_account ops a1)) > 0
        \<and> now < deadline (activeRecovery (run_account ops a1))
      \<longrightarrow> confirmRecovery g now (run_account ops a1)
            = Inl (Revert ''SmartAccount: already confirmed''))"
proof -
  from assms have "confirmed (activeRecovery a1) g"
    by (auto dest: initiate_sets_flag confirm_sets_flag)
  then have "confirmed (activeRecovery (run_account ops a1)) g"
    by (rule run_confirmed)
  then show ?thesis by (auto simp: confirmRecovery_def Let_def)
qed

theorem stale_confirmation_excludes_guardian_witness:
  "initiateRecovery 2 100 9 account0 = Inr (account_step (InitiateRecovery 2 100 9) account0)
   \<and> 2 \<in> guardian_role account_reproposed
   \<and> deadline (activeRecovery account_reproposed) > 0
   \<and> 300 < deadline (activeRecovery account_reproposed)
   \<and> isl (confirmRecovery 2 300000 account_reproposed)
   \<and> confirmRecovery 2 300 account_reproposed
       = Inl (Revert ''SmartAccount: already confirmed'')"
proof -
  have i: "initiateRecovery 2 100 9 account0
      = Inr (account_step (InitiateRecovery 2 100 9) account0)"
    by (simp add: recovery_eval)
  have r: "run_account [CancelRecovery 1, InitiateRecovery 3 200 8]
      (account_step (InitiateRecovery 2 100 9) account0) = account_reproposed"
    by (simp add: account_reproposed_def)
  have g: "2 \<in> guardian_role account_reproposed"
    "deadline (activeRecovery account_reproposed) > 0"
    "300 < deadline (activeRecovery account_reproposed)"
    by (simp_all add: recovery_eval)
  from stale_confirmation_excludes_guardian
    [of 2 100 9 account0 "account_step (InitiateRecovery 2 100 9) account0"
        "[CancelRecovery 1, InitiateRecovery 3 200 8]" 300, unfolded r] i g
  show ?thesis by blast
qed

section \<open>Batches\<close>

text \<open>
  Claim C5. An \<open>executeBatch\<close> call by the owner or a live session key on an unpaused
  account, with three targets of which the second sub-call reverts and the first and
  third succeed, does not revert: it returns the success flags \<open>[true, false, true]\<close>
  with the three pieces of return data, and the state it leaves is the state after the
  first sub-call with the third applied to it; the failed sub-call contributes nothing
  and stops nothing.
\<close>

theorem executeBatch_non_atomic:
  assumes "onlyOwnerOrSession sender now (fst s)" and "\<not> account_paused (fst s)"
    and "ext t1 v1 c1 s = Inr (r1, s1)"
    and "ext t2 v2 c2 s1 = Inl r2"
    and "ext t3 v3 c3 s1 = Inr (r3, s3)"
  shows "executeBatch ext sender now [t1, t2, t3] [v1, v2, v3] [c1, c2, c3] s
       = Inr (([True, False, True], [r1, r2, r3]), s3)"
  using assms by (simp add: executeBatch_def low_level_call_def)

theorem executeBatch_non_atomic_witness:
  "onlyOwnerOrSession 1 0 (fst (account0, 0::nat)) \<and> \<not> account_paused (fst (account0, 0::nat))
   \<and> callee0 50 0 [] (account0, 0) = Inr ([1], (account0, 1))
   \<and> callee0 51 0 [] (account0, 1) = Inl [0]
   \<and> callee0 50 0 [] (account0, 1) = Inr ([1], (account0, 2))
   \<and> executeBatch callee0 1 0 [50, 51, 50] [0, 0, 0] [ [], [], [] ] (account0, 0)
       = Inr (([True, False, True], [ [1], [0], [1] ]), (account0, 2))"
  using executeBatch_non_atomic
    [of 1 0 "(account0, 0::nat)" callee0 50 0 "[]" "[1]" "(account0, 1)" 51 0 "[]" "[0]"
        50 0 "[]" "[1]" "(account0, 2)"]
  by (simp add: onlyOwnerOrSession_def callee0_def account0_def)


section \<open>The oracle's update rule\<close>

lemma int_le_div_iff:
  fixes x y c :: int
  assumes "0 < c"
  shows "x \<le> y div c \<longleftrightarrow> x * c \<le> y"
proof
  assume "x \<le> y div c"
  then have "x * c \<le> (y div c) * c" using assms by (simp add: mult_right_mono)
  also have "\<dots> = y - y mod c" by (simp add: minus_mod_eq_div_mult)
  also have "\<dots> \<le> y" using assms by simp
  finally show "x * c \<le> y" .
next
  assume a: "x * c \<le> y"
  have e: "y = (y div c) * c + y mod c" by simp
  have m: "y mod c < c" using assms by simp
  have "(y div c) * c + y mod c < (y div c) * c + c" using m by linarith
  with e have "y < (y div c) * c + c" by linarith
  then have "y < (y div c + 1) * c" by (simp add: distrib_right)
  with a have "x * c < (y div c + 1) * c" by linarith
  then have "x < y div c + 1" using assms by (simp add: mult_less_cancel_right)
  then show "x \<le> y div c" by simp
qed

lemma div_int256_pos:
  assumes "0 \<le> a" and "a \<le> MAX_INT256" and "0 < b"
  shows "div_int256 a b = Inr (a div b)"
proof -
  have q: "0 \<le> a div b" using assms by (simp add: pos_imp_zdiv_nonneg_iff)
  have "a div b \<le> a"
  proof (cases "a = 0")
    case True
    then show ?thesis by simp
  next
    case False
    with assms(1) have "0 < a" by simp
    then show ?thesis by (rule int_div_le_self)
  qed
  with assms(2) have u: "a div b \<le> MAX_INT256" by linarith
  have l: "MIN_INT256 \<le> a div b" using q by (simp add: MIN_INT256_def)
  have s: "sgn a * sgn b * (\<bar>a\<bar> div \<bar>b\<bar>) = a div b"
    using assms(1,3) by (cases "a = 0") (simp_all add: sgn_if)
  show ?thesis unfolding div_int256_def s using assms(3) l u by (simp add: in_int256_def)
qed

lemma max_change:
  assumes "MIN_PRICE \<le> p" and "p \<le> MAX_PRICE"
  shows "and_then (mul_int256 p MAX_PRICE_CHANGE) (\<lambda>m. div_int256 m 10000000000)
       = Inr (p * MAX_PRICE_CHANGE div 10000000000)"
proof -
  have p: "0 < p" "p \<le> 1000000000000"
    using assms by (simp_all add: MIN_PRICE_def MAX_PRICE_def)
  then have "p * 5000000000 \<le> 1000000000000 * 5000000000" by simp
  then have h: "p * MAX_PRICE_CHANGE \<le> MAX_INT256"
    by (simp add: MAX_PRICE_CHANGE_def MAX_INT256_def)
  have l: "0 \<le> p * MAX_PRICE_CHANGE" using p(1) by (simp add: MAX_PRICE_CHANGE_def)
  then have l': "MIN_INT256 \<le> p * MAX_PRICE_CHANGE" by (simp add: MIN_INT256_def)
  have m: "mul_int256 p MAX_PRICE_CHANGE = Inr (p * MAX_PRICE_CHANGE)"
    using h l' by (simp add: mul_int256_def in_int256_def)
  show ?thesis unfolding m using div_int256_pos[OF l h, of 10000000000] by simp
qed

lemma price_change:
  assumes "MIN_PRICE \<le> p" and "p \<le> MAX_PRICE" and "MIN_PRICE \<le> q" and "q \<le> MAX_PRICE"
  shows "(if q > p then sub_int256 q p else sub_int256 p q) = Inr \<bar>q - p\<bar>"
  using assms
  by (simp add: sub_int256_def in_int256_def MIN_INT256_def MAX_INT256_def MIN_PRICE_def
        MAX_PRICE_def)

lemma pushPrice_outcome:
  assumes "sender \<in> oracle_operators s"
    and "MIN_PRICE \<le> latestPrice s" and "latestPrice s \<le> MAX_PRICE"
    and "lastUpdated s + MIN_UPDATE_INTERVAL \<le> MAX_UINT256" and "updateCount s < MAX_UINT256"
  shows "pushPrice sender now newPrice s =
     (if pushPrice_rejects now newPrice s
      then Inl (Revert
           (if newPrice \<le> 0 then ''OracleAdapter: price must be positive''
            else if newPrice < MIN_PRICE then ''OracleAdapter: price below minimum''
            else if MAX_PRICE < newPrice then ''OracleAdapter: price above maximum''
            else if now < lastUpdated s + MIN_UPDATE_INTERVAL
              then ''OracleAdapter: update too frequent''
            else ''OracleAdapter: price change too large''))
      else Inr (s\<lparr>latestPrice := newPrice, lastUpdated := now,
                  updateCount := updateCount s + 1\<rparr>))"
proof (cases "newPrice > 0 \<and> newPrice \<ge> MIN_PRICE \<and> newPrice \<le> MAX_PRICE
                \<and> now \<ge> lastUpdated s + MIN_UPDATE_INTERVAL")
  case False
  then show ?thesis using assms
    by (auto simp: pushPrice_def pushPrice_rejects_def add256_def)
next
  case True
  have mc: "and_then (mul_int256 (latestPrice s) MAX_PRICE_CHANGE)
              (\<lambda>m. div_int256 m 10000000000)
      = Inr (latestPrice s * MAX_PRICE_CHANGE div 10000000000)"
    using assms by (intro max_change) auto
  have pc: "(if newPrice > latestPrice s then sub_int256 newPrice (latestPrice s)
             else sub_int256 (latestPrice s) newPrice) = Inr \<bar>newPrice - latestPrice s\<bar>"
    using assms True by (intro price_change) auto
  have le: "\<bar>newPrice - latestPrice s\<bar> \<le> latestPrice s * MAX_PRICE_CHANGE div 10000000000
     \<longleftrightarrow> \<bar>newPrice - latestPrice s\<bar> * 10000000000 \<le> latestPrice s * MAX_PRICE_CHANGE"
    by (rule int_le_div_iff) simp
  have t: "add256 (lastUpdated s) MIN_UPDATE_INTERVAL = Inr (lastUpdated s + MIN_UPDATE_INTERVAL)"
    "add256 (updateCount s) 1 = Inr (updateCount s + 1)"
    using assms by (simp_all add: add256_def)
  have chk: "and_then (if newPrice > latestPrice s then sub_int256 newPrice (latestPrice s)
                       else sub_int256 (latestPrice s) newPrice) (\<lambda>priceChange.
             and_then (mul_int256 (latestPrice s) MAX_PRICE_CHANGE) (\<lambda>m.
             and_then (div_int256 m 10000000000) (\<lambda>maxChange.
               if \<not> priceChange \<le> maxChange
               then Inl (Revert ''OracleAdapter: price change too large'')
               else Inr ())))
      = (if \<bar>newPrice - latestPrice s\<bar> * 10000000000 > latestPrice s * MAX_PRICE_CHANGE
         then Inl (Revert ''OracleAdapter: price change too large'') else Inr ())"
    using mc le unfolding pc by (auto simp: and_then_Inr)
  show ?thesis using assms(1) True unfolding pushPrice_def t chk
    by (auto simp: pushPrice_rejects_def)
qed

text \<open>The stored price stays within the bounds: the hypothesis of the next theorem.\<close>

lemma oracle_price_in_bounds:
  "oracle_initialize admin now = Inr s
     \<Longrightarrow> MIN_PRICE \<le> latestPrice s \<and> latestPrice s \<le> MAX_PRICE"
  "pushPrice sender now newPrice s = Inr s'
     \<Longrightarrow> MIN_PRICE \<le> latestPrice s' \<and> latestPrice s' \<le> MAX_PRICE"
  by (auto simp: oracle_initialize_def pushPrice_def MIN_PRICE_def MAX_PRICE_def and_then_Inr
        split: if_splits)

text \<open>
  Claim C6. For an operator, on a stored price point within the bounds (and timestamps
  and counters not at the edge of 256 bits), \<open>pushPrice(newPrice)\<close> fails exactly when
  \<open>newPrice \<le> 0\<close>, or \<open>newPrice\<close> is below \<open>MIN_PRICE\<close> or above \<open>MAX_PRICE\<close> (the
  two bounds themselves are accepted), or the call comes less than
  \<open>MIN_UPDATE_INTERVAL\<close> after the stored \<open>lastUpdated\<close>, or, when
  \<open>updateCount > 0\<close>, the change relative to the stored price exceeds
  \<open>MAX_PRICE_CHANGE\<close>; on the first update the change is not checked. Otherwise it
  replaces the price and the timestamp and increments \<open>updateCount\<close>.
\<close>

theorem pushPrice_rejection:
  assumes "sender \<in> oracle_operators s"
    and "MIN_PRICE \<le> latestPrice s" and "latestPrice s \<le> MAX_PRICE"
    and "lastUpdated s + MIN_UPDATE_INTERVAL \<le> MAX_UINT256" and "updateCount s < MAX_UINT256"
  shows "(isl (pushPrice sender now newPrice s) \<longleftrightarrow> pushPrice_rejects now newPrice s)
    \<and> (\<not> pushPrice_rejects now newPrice s \<longrightarrow> pushPrice sender now newPrice s
          = Inr (s\<lparr>latestPrice := newPrice, lastUpdated := now,
                   updateCount := updateCount s + 1\<rparr>))"
  unfolding pushPrice_outcome[OF assms] by simp

lemmas oracle_eval = world0_def pushPrice_rejects_def MIN_PRICE_def MAX_PRICE_def
  MAX_PRICE_CHANGE_def MIN_UPDATE_INTERVAL_def MAX_UINT256_def

theorem pushPrice_rejection_witness:
  "98 \<in> oracle_operators (oracleAdapter world0)
   \<and> MIN_PRICE \<le> latestPrice (oracleAdapter world0)
   \<and> latestPrice (oracleAdapter world0) \<le> MAX_PRICE
   \<and> lastUpdated (oracleAdapter world0) + MIN_UPDATE_INTERVAL \<le> MAX_UINT256
   \<and> updateCount (oracleAdapter world0) < MAX_UINT256
   \<and> \<not> pushPrice_rejects 1060 MIN_PRICE (oracleAdapter world0)
   \<and> \<not> isl (pushPrice 98 1060 MIN_PRICE (oracleAdapter world0))
   \<and> pushPrice 98 1060 MIN_PRICE (oracleAdapter world0)
       = Inr \<lparr>latestPrice = MIN_PRICE, lastUpdated = 1060, updateCount = 1,
              oracle_operators = {98}\<rparr>"
  using pushPrice_rejection [of 98 "oracleAdapter world0" 1060 MIN_PRICE]
  by (simp add: oracle_eval)

text \<open>
  The boundary cases on the example oracle (initial price 150.00 set at time 1000) and
  on its successor after a first update to 200.00 at time 1060: the bounds are accepted,
  one unit outside is not; a second push within the interval fails; after the first
  update a change of exactly half the stored price passes and one unit more fails.
\<close>

lemma pushPrice_boundaries:
  "\<not> isl (pushPrice 98 1060 MIN_PRICE (oracleAdapter world0))"
  "\<not> isl (pushPrice 98 1060 MAX_PRICE (oracleAdapter world0))"
  "pushPrice 98 1060 (MIN_PRICE - 1) (oracleAdapter world0)
     = Inl (Revert ''OracleAdapter: price below minimum'')"
  "pushPrice 98 1060 (MAX_PRICE + 1) (oracleAdapter world0)
     = Inl (Revert ''OracleAdapter: price above maximum'')"
  "pushPrice 98 1059 20000000000 (oracleAdapter world0)
     = Inl (Revert ''OracleAdapter: update too frequent'')"
  "pushPrice 98 1119 20000000000
       ((oracleAdapter world0)\<lparr>latestPrice := 20000000000, lastUpdated := 1060, updateCount := 1\<rparr>)
     = Inl (Revert ''OracleAdapter: update too frequent'')"
  "\<not> isl (pushPrice 98 1120 30000000000
       ((oracleAdapter world0)\<lparr>latestPrice := 20000000000, lastUpdated := 1060, updateCount := 1\<rparr>))"
  "pushPrice 98 1120 30000000001
       ((oracleAdapter world0)\<lparr>latestPrice := 20000000000, lastUpdated := 1060, updateCount := 1\<rparr>)
     = Inl (Revert ''OracleAdapter: price change too large'')"
  by (simp_all add: pushPrice_outcome oracle_eval)


section \<open>Slippage protection\<close>

text \<open>
  Claim C7. In each swap entry point, whenever the execution reaches the point where
  the realized output is measured as the router's balance delta and that output is
  below the caller's minimum, the call reverts with the slippage message of that entry
  point, and the transaction leaves the whole state (every balance, allowance and the
  vault) as it was. This covers \<open>swapToUSDCAndDeposit\<close>, \<open>swap\<close> and the swapping
  path of \<open>swapUSDCToToken\<close>; the pass-through of \<open>swapUSDCToToken\<close> for USDC itself
  measures no delta.
\<close>

theorem slippage_reverts:
  "(returned (swapToUSDCAndDeposit_realized d agg sender tokenIn amountIn swapData user w)
        = Some usdcReceived
      \<and> usdcReceived < minUsdcOut
    \<longrightarrow> swapToUSDCAndDeposit d agg sender tokenIn amountIn minUsdcOut swapData user w
          = Inl (Revert ''DEXRouter: insufficient USDC received'')
      \<and> commit w (swapToUSDCAndDeposit d agg sender tokenIn amountIn minUsdcOut swapData user w)
          = w)
   \<and> (returned (swap_realized d agg sender tokenIn tokenOut amountIn swapData recipient w)
        = Some amountOut
      \<and> amountOut < minAmountOut
    \<longrightarrow> swap d agg sender tokenIn tokenOut amountIn minAmountOut swapData recipient w
          = Inl (Revert ''DEXRouter: insufficient output amount'')
      \<and> commit w (swap d agg sender tokenIn tokenOut amountIn minAmountOut swapData recipient w)
          = w)
   \<and> (sender \<in> router_aa_role (dexRouter w) \<and> \<not> router_paused (dexRouter w)
      \<and> allowedTokens (dexRouter w) tokenOut \<and> usdcAmount > 0 \<and> recipient \<noteq> 0
      \<and> tokenOut \<noteq> usdc_addr d
      \<and> returned (swapUSDCToToken_realized d agg sender tokenOut usdcAmount swapData w)
          = Some tokenAmountOut
      \<and> tokenAmountOut < minTokenOut
    \<longrightarrow> swapUSDCToToken d agg sender tokenOut usdcAmount minTokenOut swapData recipient w
          = Inl (Revert ''DEXRouter: insufficient output amount'')
      \<and> commit w
          (swapUSDCToToken d agg sender tokenOut usdcAmount minTokenOut swapData recipient w)
          = w)"
  by (auto simp: swapToUSDCAndDeposit_def swap_def swapUSDCToToken_def commit_def Let_def
        returned_def split: sum.splits)

lemmas router_eval = swapToUSDCAndDeposit_realized_def swap_realized_def
  swapUSDCToToken_realized_def returned_def agg0_def credit_def erc20_transferFrom_def
  erc20_transfer_def erc20_approve_def add256_def sub256_def mul256_def div256_def Let_def

theorem slippage_reverts_witness:
  "returned (swapToUSDCAndDeposit_realized dep0 agg0 20 30 100 [1] 1 world0) = Some 5
   \<and> swapToUSDCAndDeposit dep0 agg0 20 30 100 6 [1] 1 world0
       = Inl (Revert ''DEXRouter: insufficient USDC received'')
   \<and> commit world0 (swapToUSDCAndDeposit dep0 agg0 20 30 100 6 [1] 1 world0) = world0
   \<and> returned (swap_realized dep0 agg0 20 30 10 100 [1] 1 world0) = Some 5
   \<and> swap dep0 agg0 20 30 10 100 6 [1] 1 world0
       = Inl (Revert ''DEXRouter: insufficient output amount'')
   \<and> commit world0 (swap dep0 agg0 20 30 10 100 6 [1] 1 world0) = world0
   \<and> 20 \<in> router_aa_role (dexRouter world0) \<and> \<not> router_paused (dexRouter world0)
   \<and> allowedTokens (dexRouter world0) 30 \<and> 30 \<noteq> usdc_addr dep0
   \<and> returned (swapUSDCToToken_realized dep0 agg0 20 30 100 [2] world0) = Some 5
   \<and> swapUSDCToToken dep0 agg0 20 30 100 6 [2] 1 world0
       = Inl (Revert ''DEXRouter: insufficient output amount'')
   \<and> commit world0 (swapUSDCToToken dep0 agg0 20 30 100 6 [2] 1 world0) = world0"
proof -
  have m: "returned (swapToUSDCAndDeposit_realized dep0 agg0 20 30 100 [1] 1 world0) = Some 5"
    "returned (swap_realized dep0 agg0 20 30 10 100 [1] 1 world0) = Some 5"
    "returned (swapUSDCToToken_realized dep0 agg0 20 30 100 [2] world0) = Some 5"
    by (simp_all add: router_eval world0_eval)
  have g: "20 \<in> router_aa_role (dexRouter world0)" "\<not> router_paused (dexRouter world0)"
    "allowedTokens (dexRouter world0) 30" "30 \<noteq> usdc_addr dep0"
    by (simp_all add: world0_def dep0_def)
  from slippage_reverts
      [where d = dep0 and agg = agg0 and sender = 20 and w = world0 and tokenIn = 30
         and amountIn = 100 and swapData = "[1]" and user = 1 and usdcReceived = 5
         and minUsdcOut = 6 and tokenOut = 10 and recipient = 1 and amountOut = 5
         and minAmountOut = 6]
    slippage_reverts
      [where d = dep0 and agg = agg0 and sender = 20 and w = world0 and tokenOut = 30
         and usdcAmount = 100 and swapData = "[2]" and recipient = 1 and tokenAmountOut = 5
         and minTokenOut = 6]
    m g
  show ?thesis by (simp add: commit_def)
qed

text \<open>
  Outside the claim's reach: when the output token is USDC itself no swap is made, no
  delta is measured and \<open>minTokenOut\<close> is not read; the call returns \<open>usdcAmount\<close>
  whenever the transfer goes through.
\<close>

lemma swapUSDCToToken_pass_through:
  assumes "sender \<in> router_aa_role (dexRouter w)" and "\<not> router_paused (dexRouter w)"
    and "allowedTokens (dexRouter w) (usdc_addr d)" and "usdcAmount > 0" and "recipient \<noteq> 0"
    and "erc20_transferFrom (router_addr d) sender recipient usdcAmount (usdc d w) = Inr t"
  shows "swapUSDCToToken d agg sender (usdc_addr d) usdcAmount minTokenOut swapData recipient w
       = Inr (usdcAmount, set_usdc d t w)"
  using assms by (simp add: swapUSDCToToken_def Let_def)

section \<open>Rate-limited sponsorship\<close>

text \<open>
  Claim C8, as amended. While the current time bucket does not exceed the account's
  last-reset bucket and its accumulated usage plus the new cost exceeds
  \<open>MAX_GAS_PER_HOUR\<close>, \<open>canPayForGas\<close> does not return true and
  \<open>validatePaymasterUserOp\<close> does not return validation data 0. Once the current time
  bucket exceeds the last-reset bucket, the usage no longer counts: \<open>canPayForGas\<close>
  returns true exactly when the account holds enough of either settlement asset for the
  cost at the configured rates (for costs whose products with the rates fit in 256
  bits), and \<open>validatePaymasterUserOp\<close>, which does not read the account's balances,
  accepts exactly when the gas reserve covers the cost plus the minimum reserve.
\<close>

theorem sponsorship_rate_limit:
  "(now div RATE_LIMIT_PERIOD \<le> lastResetTime (pm s) user div RATE_LIMIT_PERIOD
      \<and> userGasUsed (pm s) user + gasCost > MAX_GAS_PER_HOUR
      \<longrightarrow> canPayForGas now user gasCost s \<noteq> Inr True
        \<and> (sender_of_userOp userOp = Inr user
             \<longrightarrow> (\<forall>ctx. validatePaymasterUserOp now userOp h gasCost s \<noteq> Inr (ctx, 0))))
   \<and> (now div RATE_LIMIT_PERIOD > lastResetTime (pm s) user div RATE_LIMIT_PERIOD
      \<and> gasCost * usdcToGasRate (pm s) \<le> MAX_UINT256
      \<and> gasCost * okbToGasRate (pm s) \<le> MAX_UINT256
      \<longrightarrow> canPayForGas now user gasCost s
          = Inr (balanceOf (usdcToken s) user \<ge> gasCost * usdcToGasRate (pm s) div 10 ^ 18
               \<or> balanceOf (okbToken s) user \<ge> gasCost * okbToGasRate (pm s) div 10 ^ 18))
   \<and> (now div RATE_LIMIT_PERIOD > lastResetTime (pm s) user div RATE_LIMIT_PERIOD
      \<and> sender_of_userOp userOp = Inr user
      \<and> gasCost + minimumGasReserve (pm s) \<le> MAX_UINT256
      \<longrightarrow> validatePaymasterUserOp now userOp h gasCost s
          = (if gasReserve (pm s) < gasCost + minimumGasReserve (pm s) then Inr (None, 1)
             else Inr (Some (user, gasCost, h), 0)))"
  by (auto simp: canPayForGas_def validatePaymasterUserOp_def isRateLimited_def Let_def
        add256_def mul256_def div256_def and_then_Inr)

lemmas sponsor_eval = sponsor0_def sponsor_funded_def userOp0_def erc20_empty_def
  sender_of_userOp_def RATE_LIMIT_PERIOD_def MAX_GAS_PER_HOUR_def MAX_UINT256_def balanceOf_def

theorem sponsorship_rate_limit_witness:
  "3700 div RATE_LIMIT_PERIOD \<le> lastResetTime (pm sponsor_funded) 7 div RATE_LIMIT_PERIOD
   \<and> userGasUsed (pm sponsor_funded) 7 + 1 > MAX_GAS_PER_HOUR
   \<and> sender_of_userOp userOp0 = Inr 7
   \<and> canPayForGas 3700 7 1 sponsor_funded \<noteq> Inr True
   \<and> validatePaymasterUserOp 3700 userOp0 0 1 sponsor_funded \<noteq> Inr (Some (7, 1, 0), 0)
   \<and> 7200 div RATE_LIMIT_PERIOD > lastResetTime (pm sponsor_funded) 7 div RATE_LIMIT_PERIOD
   \<and> 1000 * usdcToGasRate (pm sponsor_funded) \<le> MAX_UINT256
   \<and> 1000 * okbToGasRate (pm sponsor_funded) \<le> MAX_UINT256
   \<and> 1000 + minimumGasReserve (pm sponsor_funded) \<le> MAX_UINT256
   \<and> canPayForGas 7200 7 1000 sponsor_funded = Inr True
   \<and> validatePaymasterUserOp 7200 userOp0 0 1000 sponsor_funded = Inr (Some (7, 1000, 0), 0)"
  using sponsorship_rate_limit [of 3700 sponsor_funded 7 1 userOp0 0]
    sponsorship_rate_limit [of 7200 sponsor_funded 7 1000 userOp0 0]
  by (simp add: sponsor_eval)

text \<open>
  The claim as stated fails for \<open>validatePaymasterUserOp\<close>: on the paymaster as
  constructed (no gas deposited), in a new time bucket and for an account that holds
  enough USDC for the cost, \<open>canPayForGas\<close> grants and \<open>validatePaymasterUserOp\<close>
  still refuses, because the reserve does not cover the cost plus the minimum reserve.
\<close>

theorem sponsorship_reserve_counterexample:
  "7200 div RATE_LIMIT_PERIOD > lastResetTime (pm sponsor0) 7 div RATE_LIMIT_PERIOD
   \<and> balanceOf (usdcToken sponsor0) 7 \<ge> 1000 * usdcToGasRate (pm sponsor0) div 10 ^ 18
   \<and> sender_of_userOp userOp0 = Inr 7
   \<and> canPayForGas 7200 7 1000 sponsor0 = Inr True
   \<and> validatePaymasterUserOp 7200 userOp0 0 1000 sponsor0 = Inr (None, 1)"
  by (simp add: sponsor_eval canPayForGas_def validatePaymasterUserOp_def isRateLimited_def
        add256_def mul256_def div256_def Let_def)

text \<open>A new window resets the usage to the cost just charged; within a window it adds up.\<close>

lemma updateGasUsage_window:
  "now div RATE_LIMIT_PERIOD > lastResetTime p user div RATE_LIMIT_PERIOD
     \<Longrightarrow> updateGasUsage now user gasCost p
         = Inr (p\<lparr>userGasUsed := (userGasUsed p)(user := gasCost),
                  lastResetTime := (lastResetTime p)(user := now)\<rparr>)"
  "\<not> now div RATE_LIMIT_PERIOD > lastResetTime p user div RATE_LIMIT_PERIOD
     \<Longrightarrow> userGasUsed p user + gasCost \<le> MAX_UINT256
     \<Longrightarrow> updateGasUsage now user gasCost p
         = Inr (p\<lparr>userGasUsed := (userGasUsed p)(user := userGasUsed p user + gasCost)\<rparr>)"
  by (simp_all add: updateGasUsage_def Let_def add256_def)

end
